theory Spec2Isabelle
  imports Complex_Main "HOL-Library.Word"
begin

section \<open>Strings and numbers of the host language\<close>

text \<open>
  The program is TypeScript. Its strings are sequences of 16-bit code units
  (UTF-16), so a string is a list of 16-bit words. ASCII literals of the source
  are written through \<open>ascii\<close>; the Ukrainian literals are written as their
  code units, with a transliteration beside them.
\<close>

type_synonym code_unit = "16 word"
type_synonym jsstring = "code_unit list"

definition ascii :: "string \<Rightarrow> jsstring" where
  "ascii s = map of_char s"

definition NL :: code_unit where
  "NL = 0x0A"

text \<open>
  Numbers are IEEE doubles. The program performs no arithmetic on them: it tests
  them for truthiness and renders them as text. A finite double is represented by
  the real number that its shortest decimal denotes (the decimal that reads back as
  the same double), so that the constant the source writes \<open>50.4501\<close> is the
  real \<open>50.4501\<close>; \<open>0\<close> and \<open>-0\<close> coincide and are both falsy. The input
  schema of the tool admits neither NaN nor an infinity. The two renderings,
  \<open>Number.prototype.toFixed\<close> and the number-to-string conversion used by
  \<open>String(x)\<close> and by template literals, belong to the engine and depend on
  the binary representation of the double; they are parameters of the model.
\<close>

record runtime =
  num_toString :: "real \<Rightarrow> jsstring"
  num_toFixed :: "real \<Rightarrow> nat \<Rightarrow> jsstring"

text \<open>Exceptions that the modelled code can raise.\<close>

datatype error = URIError

subsection \<open>\<open>Array.prototype.join\<close> and \<open>String.prototype.split\<close>\<close>

fun join :: "jsstring \<Rightarrow> jsstring list \<Rightarrow> jsstring" where
  "join sep [] = []"
| "join sep [x] = x"
| "join sep (x # y # ys) = x @ sep @ join sep (y # ys)"

text \<open>\<open>s.split("\n")\<close>: the pieces of \<open>s\<close> between newlines; never empty.\<close>

fun split_nl :: "jsstring \<Rightarrow> jsstring list" where
  "split_nl [] = [[]]"
| "split_nl (c # cs) =
     (if c = NL then [] # split_nl cs
      else (case split_nl cs of [] \<Rightarrow> [[c]] | l # ls \<Rightarrow> (c # l) # ls))"

subsection \<open>\<open>encodeURIComponent\<close> and the form-urlencoded serialiser\<close>

definition is_lead :: "code_unit \<Rightarrow> bool" where
  "is_lead c \<longleftrightarrow> 0xD800 \<le> c \<and> c \<le> 0xDBFF"

definition is_trail :: "code_unit \<Rightarrow> bool" where
  "is_trail c \<longleftrightarrow> 0xDC00 \<le> c \<and> c \<le> 0xDFFF"

definition is_alnum :: "code_unit \<Rightarrow> bool" where
  "is_alnum c \<longleftrightarrow> (0x30 \<le> c \<and> c \<le> 0x39) \<or> (0x41 \<le> c \<and> c \<le> 0x5A) \<or> (0x61 \<le> c \<and> c \<le> 0x7A)"

text \<open>The code point of a surrogate pair.\<close>

definition pair_code_point :: "code_unit \<Rightarrow> code_unit \<Rightarrow> nat" where
  "pair_code_point hi lo = (unat hi - 0xD800) * 0x400 + (unat lo - 0xDC00) + 0x10000"

definition utf8_bytes :: "nat \<Rightarrow> nat list" where
  "utf8_bytes n =
     (if n < 0x80 then [n]
      else if n < 0x800 then [0xC0 + n div 64, 0x80 + n mod 64]
      else if n < 0x10000 then [0xE0 + n div 4096, 0x80 + (n div 64) mod 64, 0x80 + n mod 64]
      else [0xF0 + n div 262144, 0x80 + (n div 4096) mod 64, 0x80 + (n div 64) mod 64,
            0x80 + n mod 64])"

definition hex_digit :: "nat \<Rightarrow> code_unit" where
  "hex_digit d = (if d < 10 then of_nat (0x30 + d) else of_nat (0x37 + d))"

definition percent_byte :: "nat \<Rightarrow> jsstring" where
  "percent_byte b = [0x25, hex_digit (b div 16), hex_digit (b mod 16)]"

definition percent_utf8 :: "nat \<Rightarrow> jsstring" where
  "percent_utf8 n = concat (map percent_byte (utf8_bytes n))"

text \<open>
  \<open>encodeURIComponent\<close> (ECMAScript, Encode): letters, digits and
  \<open>- _ . ! ~ * ' ( )\<close> are kept; every other code point is percent-encoded in
  UTF-8; an unpaired surrogate raises \<open>URIError\<close>.
\<close>

definition uri_unescaped :: "code_unit \<Rightarrow> bool" where
  "uri_unescaped c \<longleftrightarrow> is_alnum c \<or> c \<in> set (ascii ''-_.!~*()'') \<or> c = 0x27"

fun prepend :: "jsstring \<Rightarrow> error + jsstring \<Rightarrow> error + jsstring" where
  "prepend s (Inl e) = Inl e"
| "prepend s (Inr t) = Inr (s @ t)"

fun encodeURIComponent :: "jsstring \<Rightarrow> error + jsstring" where
  "encodeURIComponent [] = Inr []"
| "encodeURIComponent (c # cs) =
     (if uri_unescaped c then prepend [c] (encodeURIComponent cs)
      else if is_trail c then Inl URIError
      else if is_lead c then
        (case cs of
           [] \<Rightarrow> Inl URIError
         | d # ds \<Rightarrow>
             if is_trail d then prepend (percent_utf8 (pair_code_point c d)) (encodeURIComponent ds)
             else Inl URIError)
      else prepend (percent_utf8 (unat c)) (encodeURIComponent cs))"

text \<open>
  \<open>URLSearchParams.prototype.toString\<close> (WHATWG URL, the
  application/x-www-form-urlencoded serialiser): names and values are converted to
  scalar values (an unpaired surrogate becomes U+FFFD), encoded in UTF-8, and each
  byte is kept when it is a letter, a digit or one of \<open>* - . _\<close>, written \<open>+\<close>
  when it is a space, and percent-encoded otherwise.
\<close>

fun scalar_values :: "jsstring \<Rightarrow> nat list" where
  "scalar_values [] = []"
| "scalar_values (c # cs) =
     (if is_trail c then 0xFFFD # scalar_values cs
      else if is_lead c then
        (case cs of
           [] \<Rightarrow> [0xFFFD]
         | d # ds \<Rightarrow>
             if is_trail d then pair_code_point c d # scalar_values ds
             else 0xFFFD # scalar_values cs)
      else unat c # scalar_values cs)"

definition form_byte :: "nat \<Rightarrow> jsstring" where
  "form_byte b =
     (if b = 0x20 then [0x2B]
      else if is_alnum (of_nat b) \<or> b \<in> {0x2A, 0x2D, 0x2E, 0x5F} then [of_nat b]
      else percent_byte b)"

definition form_encode :: "jsstring \<Rightarrow> jsstring" where
  "form_encode s = concat (map form_byte (concat (map utf8_bytes (scalar_values s))))"

definition URLSearchParams_toString :: "(jsstring \<times> jsstring) list \<Rightarrow> jsstring" where
  "URLSearchParams_toString ps =
     join (ascii ''&'') (map (\<lambda>(k, v). form_encode k @ ascii ''='' @ form_encode v) ps)"

section \<open>Constants of the program\<close>

definition GEOCODING_BASE :: jsstring where
  "GEOCODING_BASE = ascii ''https://geocoding-api.open-meteo.com/v1/search''"

definition FORECAST_BASE :: jsstring where
  "FORECAST_BASE = ascii ''https://api.open-meteo.com/v1/forecast''"

definition DEFAULT_LATITUDE :: real where
  "DEFAULT_LATITUDE = 50.4501"

definition DEFAULT_LONGITUDE :: real where
  "DEFAULT_LONGITUDE = 30.5234"

definition DEFAULT_TIMEZONE :: jsstring where
  "DEFAULT_TIMEZONE = ascii ''Europe/Kyiv''"

definition DEFAULT_LANGUAGE :: jsstring where
  "DEFAULT_LANGUAGE = ascii ''uk''"

text \<open>The table \<open>T\<close> of Ukrainian texts, one constant for each of its fields.\<close>

definition T_forecastFor :: jsstring where \<comment> \<open>Prohnoz dlia\<close>
  "T_forecastFor = [0x41F, 0x440, 0x43E, 0x433, 0x43D, 0x43E, 0x437, 0x20, 0x434, 0x43B, 0x44F]"

definition T_temperature :: jsstring where \<comment> \<open>Temperatura\<close>
  "T_temperature = [0x422, 0x435, 0x43C, 0x43F, 0x435, 0x440, 0x430, 0x442, 0x443, 0x440, 0x430]"

definition T_wind :: jsstring where \<comment> \<open>Viter\<close>
  "T_wind = [0x412, 0x456, 0x442, 0x435, 0x440]"

definition T_noData :: jsstring where \<comment> \<open>Dani nedostupni\<close>
  "T_noData = [0x414, 0x430, 0x43D, 0x456, 0x20, 0x43D, 0x435, 0x434, 0x43E, 0x441, 0x442, 0x443,
     0x43F, 0x43D, 0x456]"

definition T_failed :: jsstring where \<comment> \<open>Ne vdalosia otrymaty dani\<close>
  "T_failed = [0x41D, 0x435, 0x20, 0x432, 0x434, 0x430, 0x43B, 0x43E, 0x441, 0x44F, 0x20, 0x43E,
     0x442, 0x440, 0x438, 0x43C, 0x430, 0x442, 0x438, 0x20, 0x434, 0x430, 0x43D, 0x456]"

definition T_current :: jsstring where \<comment> \<open>Potochni umovy\<close>
  "T_current = [0x41F, 0x43E, 0x442, 0x43E, 0x447, 0x43D, 0x456, 0x20, 0x443, 0x43C, 0x43E, 0x432,
     0x438]"

definition T_noAlerts :: jsstring where
  \<comment> \<open>Potochni poperedzhennia vidsutni abo ne dostupni cherez konfihuratsiiu servera\<close>
  "T_noAlerts = [0x41F, 0x43E, 0x442, 0x43E, 0x447, 0x43D, 0x456, 0x20, 0x43F, 0x43E, 0x43F, 0x435,
     0x440, 0x435, 0x434, 0x436, 0x435, 0x43D, 0x43D, 0x44F, 0x20, 0x432, 0x456, 0x434, 0x441,
     0x443, 0x442, 0x43D, 0x456, 0x20, 0x430, 0x431, 0x43E, 0x20, 0x43D, 0x435, 0x20, 0x434,
     0x43E, 0x441, 0x442, 0x443, 0x43F, 0x43D, 0x456, 0x20, 0x447, 0x435, 0x440, 0x435, 0x437,
     0x20, 0x43A, 0x43E, 0x43D, 0x444, 0x456, 0x433, 0x443, 0x440, 0x430, 0x446, 0x456, 0x44E,
     0x20, 0x441, 0x435, 0x440, 0x432, 0x435, 0x440, 0x430]"

section \<open>The HTTP fetcher\<close>

text \<open>
  What the network answers to a GET of a URL, read at the type the caller expects
  (the source casts the parsed JSON without checking it): \<open>fetch\<close> rejects, or
  a response arrives with its \<open>ok\<close> flag and a body that fails to parse, is the
  JSON value \<open>null\<close>, or is a value.
\<close>

datatype 'a body = BodyRejects | BodyNull | Body 'a

datatype 'a response = FetchRejects | Response bool "'a body"

text \<open>The effects of the program, in the order they happen.\<close>

datatype effect = Fetch jsstring | ConsoleError

text \<open>\<open>makeRequest\<close>: the parsed body, or \<open>None\<close> for the null it returns.\<close>

definition makeRequest :: "(jsstring \<Rightarrow> 'a response) \<Rightarrow> jsstring \<Rightarrow> 'a option \<times> effect list" where
  "makeRequest net url =
     (case net url of
        FetchRejects \<Rightarrow> (None, [Fetch url, ConsoleError])
      | Response ok b \<Rightarrow>
          if \<not> ok then (None, [Fetch url, ConsoleError])
          else (case b of
                  BodyRejects \<Rightarrow> (None, [Fetch url, ConsoleError])
                | BodyNull \<Rightarrow> (None, [Fetch url])
                | Body v \<Rightarrow> (Some v, [Fetch url])))"

section \<open>The geocoder\<close>

text \<open>
  The body of the geocoding response is taken at the types the source declares for
  it. The source casts the parsed JSON without checking it, so a body whose first
  result has a latitude or longitude that is not a number is outside the model;
  there the source raises \<open>TypeError\<close> when the formatter calls \<open>toFixed\<close>.
\<close>

record geo_entry =
  geo_latitude :: real
  geo_longitude :: real
  geo_name :: jsstring
  geo_country :: jsstring

record GeocodingResult =
  results :: "geo_entry list option"

text \<open>The object \<open>geocodeCity\<close> returns.\<close>

record location =
  loc_latitude :: real
  loc_longitude :: real
  loc_name :: "jsstring option"

text \<open>\<open>data?.results?.[0]\<close>\<close>

definition first_result :: "GeocodingResult option \<Rightarrow> geo_entry option" where
  "first_result data =
     (case data of
        None \<Rightarrow> None
      | Some d \<Rightarrow> (case results d of None \<Rightarrow> None | Some [] \<Rightarrow> None | Some (e # _) \<Rightarrow> Some e))"

definition geocode_url :: "jsstring \<Rightarrow> jsstring" where
  "geocode_url enc =
     GEOCODING_BASE @ ascii ''?name='' @ enc @ ascii ''&count=1&language='' @ DEFAULT_LANGUAGE"

definition geocodeCity ::
  "(jsstring \<Rightarrow> GeocodingResult response) \<Rightarrow> jsstring \<Rightarrow> (error + location option) \<times> effect list"
where
  "geocodeCity net city =
     (case encodeURIComponent city of
        Inl e \<Rightarrow> (Inl e, [])
      | Inr enc \<Rightarrow>
          (let (data, effs) = makeRequest net (geocode_url enc)
           in case first_result data of
                None \<Rightarrow> (Inr None, effs)
              | Some first \<Rightarrow>
                  (Inr (Some \<lparr>loc_latitude = geo_latitude first,
                               loc_longitude = geo_longitude first,
                               loc_name = Some (geo_name first)\<rparr>), effs)))"

section \<open>The forecast payload\<close>

record current_weather =
  temperature :: real
  windspeed :: real
  winddirection :: real
  weathercode :: real
  time :: jsstring

text \<open>
  The source types \<open>daily\<close> as a dictionary of untyped values. The model follows
  the payload of the forecast service: each of the four series the formatter reads
  is absent (or null) or an array, and an element of an array is a JSON scalar.
  Arrays need not have the same length. Series that are not arrays, and elements
  that are arrays or objects, are outside the model.
\<close>

datatype jsvalue = JNull | JBool bool | JNum real | JStr jsstring

record daily =
  daily_time :: "jsvalue list option"
  temperature_2m_max :: "jsvalue list option"
  temperature_2m_min :: "jsvalue list option"
  precipitation_sum :: "jsvalue list option"

record OpenMeteoForecast =
  fc_latitude :: real
  fc_longitude :: real
  generationtime_ms :: "real option"
  utc_offset_seconds :: "real option"
  timezone :: "jsstring option"
  current_weather :: "current_weather option"
  daily :: "daily option"

text \<open>\<open>xs[i]\<close>: \<open>None\<close> is the \<open>undefined\<close> of an index out of range.\<close>

definition index :: "'a list \<Rightarrow> nat \<Rightarrow> 'a option" where
  "index xs i = (if i < length xs then Some (xs ! i) else None)"

text \<open>\<open>x || []\<close> for a series \<open>x\<close>\<close>

definition or_empty :: "'a list option \<Rightarrow> 'a list" where
  "or_empty x = (case x of None \<Rightarrow> [] | Some xs \<Rightarrow> xs)"

text \<open>The text a template literal substitutes for a value.\<close>

fun template :: "runtime \<Rightarrow> jsvalue option \<Rightarrow> jsstring" where
  "template rt None = ascii ''undefined''"
| "template rt (Some JNull) = ascii ''null''"
| "template rt (Some (JBool b)) = (if b then ascii ''true'' else ascii ''false'')"
| "template rt (Some (JNum x)) = num_toString rt x"
| "template rt (Some (JStr s)) = s"

section \<open>The forecast formatter\<close>

text \<open>Truthiness of an optional string and of an optional number.\<close>

definition truthy_str :: "jsstring option \<Rightarrow> bool" where
  "truthy_str s = (case s of None \<Rightarrow> False | Some t \<Rightarrow> t \<noteq> [])"

definition truthy_num :: "real option \<Rightarrow> bool" where
  "truthy_num x = (case x of None \<Rightarrow> False | Some r \<Rightarrow> r \<noteq> 0)"

text \<open>The line pushed by the body of the loop over the days.\<close>

definition daily_line ::
  "runtime \<Rightarrow> jsvalue list \<Rightarrow> jsvalue list \<Rightarrow> jsvalue list \<Rightarrow> jsvalue list \<Rightarrow> nat \<Rightarrow> jsstring"
where
  "daily_line rt dates maxTemps minTemps precip i =
     template rt (index dates i) @ [0x20, 0x2014, 0x20] @ T_temperature @ ascii '': ''
       @ template rt (index minTemps i) @ [0x2026] @ template rt (index maxTemps i)
       @ [0x20, 0xB0] @ ascii ''C, '' @ [0x43E, 0x43F, 0x430, 0x434, 0x438] @ ascii '': ''
       @ template rt (index precip i) @ [0x20, 0x43C, 0x43C]"

text \<open>
  \<open>for (let i = 0; i < Math.min(dates.length, 7); i++) lines.push(...)\<close>,
  started at \<open>i\<close> with the lines pushed so far.
\<close>

function daily_loop ::
  "runtime \<Rightarrow> jsvalue list \<Rightarrow> jsvalue list \<Rightarrow> jsvalue list \<Rightarrow> jsvalue list \<Rightarrow> nat \<Rightarrow>
     jsstring list \<Rightarrow> jsstring list"
where
  "daily_loop rt dates maxTemps minTemps precip i lines =
     (if i < min (length dates) 7
      then daily_loop rt dates maxTemps minTemps precip (i + 1)
             (lines @ [daily_line rt dates maxTemps minTemps precip i])
      else lines)"
  by pat_completeness auto
termination
  by (relation "measure (\<lambda>(rt, dates, maxTemps, minTemps, precip, i, lines). min (length dates) 7 - i)")
    auto

declare daily_loop.simps [simp del]

text \<open>The sub-header of the daily section, \<open>Dennyi prohnoz:\<close>, without its leading newline.\<close>

definition daily_header :: jsstring where
  "daily_header = [0x414, 0x435, 0x43D, 0x43D, 0x438, 0x439, 0x20, 0x43F, 0x440, 0x43E, 0x433,
     0x43D, 0x43E, 0x437, 0x3A]"

text \<open>The strings built by the template literals of the formatter.\<close>

definition location_text :: "runtime \<Rightarrow> real \<Rightarrow> real \<Rightarrow> jsstring option \<Rightarrow> jsstring" where
  "location_text rt lat lon placeName =
     (if truthy_str placeName
      then the placeName @ ascii '' ('' @ num_toFixed rt lat 4 @ ascii '', ''
             @ num_toFixed rt lon 4 @ ascii '')''
      else num_toFixed rt lat 4 @ ascii '', '' @ num_toFixed rt lon 4)"

definition header_line :: "runtime \<Rightarrow> real \<Rightarrow> real \<Rightarrow> jsstring option \<Rightarrow> jsstring" where
  "header_line rt lat lon placeName = T_forecastFor @ ascii '' '' @ location_text rt lat lon placeName"

definition current_header :: jsstring where
  "current_header = T_current @ ascii '':''"

definition temperature_line :: "runtime \<Rightarrow> current_weather \<Rightarrow> jsstring" where
  "temperature_line rt cur =
     T_temperature @ ascii '': '' @ num_toString rt (temperature cur) @ [0x20, 0xB0] @ ascii ''C''"

definition wind_line :: "runtime \<Rightarrow> current_weather \<Rightarrow> jsstring" where
  "wind_line rt cur =
     T_wind @ ascii '': '' @ num_toString rt (windspeed cur) @ ascii '' km/h (''
       @ num_toString rt (winddirection cur) @ [0xB0] @ ascii '')''"

definition time_line :: "current_weather \<Rightarrow> jsstring" where \<comment> \<open>Chas\<close>
  "time_line cur = [0x427, 0x430, 0x441] @ ascii '': '' @ time cur"

definition formatForecastText ::
  "runtime \<Rightarrow> real \<Rightarrow> real \<Rightarrow> OpenMeteoForecast \<Rightarrow> jsstring option \<Rightarrow> jsstring"
where
  "formatForecastText rt lat lon data placeName =
     (let lines0 = [header_line rt lat lon placeName];
          lines1 =
            (case current_weather data of
               Some cur \<Rightarrow>
                 lines0 @
                 [[NL] @ current_header, temperature_line rt cur, wind_line rt cur, time_line cur]
             | None \<Rightarrow> lines0 @ [T_noData]);
          lines2 =
            (case daily data of
               Some d \<Rightarrow>
                 (let dates = or_empty (daily_time d);
                      maxTemps = or_empty (temperature_2m_max d);
                      minTemps = or_empty (temperature_2m_min d);
                      precip = or_empty (precipitation_sum d)
                  in if length dates > 0
                     then daily_loop rt dates maxTemps minTemps precip 0
                            (lines1 @ [[NL] @ daily_header])
                     else lines1)
             | None \<Rightarrow> lines1)
      in join [NL] lines2)"

section \<open>The tool handler\<close>

record args =
  city :: "jsstring option"
  latitude :: "real option"
  longitude :: "real option"

record content_item =
  item_type :: jsstring
  item_text :: jsstring

record tool_result =
  content :: "content_item list"

definition text_result :: "jsstring \<Rightarrow> tool_result" where
  "text_result t = \<lparr>content = [\<lparr>item_type = ascii ''text'', item_text = t\<rparr>]\<rparr>"

text \<open>The URL of the forecast request.\<close>

definition forecast_url :: "runtime \<Rightarrow> real \<Rightarrow> real \<Rightarrow> jsstring" where
  "forecast_url rt lat lon =
     FORECAST_BASE @ ascii ''?'' @
     URLSearchParams_toString
       [(ascii ''latitude'', num_toString rt lat),
        (ascii ''longitude'', num_toString rt lon),
        (ascii ''current_weather'', ascii ''true''),
        (ascii ''daily'', ascii ''temperature_2m_max,temperature_2m_min,precipitation_sum''),
        (ascii ''timezone'', DEFAULT_TIMEZONE),
        (ascii ''temperature_unit'', ascii ''celsius''),
        (ascii ''windspeed_unit'', ascii ''kmh'')]"

text \<open>The message for a forecast that cannot be fetched: \<open>pomylka pry otrymanni danykh\<close>.\<close>

definition fetch_error_text :: jsstring where
  "fetch_error_text =
     T_failed @ ascii '': '' @
     [0x43F, 0x43E, 0x43C, 0x438, 0x43B, 0x43A, 0x430, 0x20, 0x43F, 0x440, 0x438, 0x20, 0x43E,
      0x442, 0x440, 0x438, 0x43C, 0x430, 0x43D, 0x43D, 0x456, 0x20, 0x434, 0x430, 0x43D, 0x438,
      0x445]"

text \<open>
  The handler from the construction of the forecast URL to its end, for the
  coordinates and the place name the first part has resolved.
\<close>

definition fetch_and_format ::
  "runtime \<Rightarrow> (jsstring \<Rightarrow> OpenMeteoForecast response) \<Rightarrow> real \<Rightarrow> real \<Rightarrow> jsstring option \<Rightarrow>
     tool_result \<times> effect list"
where
  "fetch_and_format rt fnet lat lon placeName =
     (let (data, effs) = makeRequest fnet (forecast_url rt lat lon)
      in case data of
           None \<Rightarrow> (text_result fetch_error_text, effs)
         | Some d \<Rightarrow> (text_result (formatForecastText rt lat lon d placeName), effs))"

text \<open>The message for a city the geocoder does not find: \<open>ne znaideno misto\<close>.\<close>

definition not_found_text :: "jsstring \<Rightarrow> jsstring" where
  "not_found_text c =
     T_failed @ ascii '': '' @
     [0x43D, 0x435, 0x20, 0x437, 0x43D, 0x430, 0x439, 0x434, 0x435, 0x43D, 0x43E, 0x20, 0x43C,
      0x456, 0x441, 0x442, 0x43E, 0x20, 0x27] @ c @ [0x27]"

text \<open>
  The handler of \<open>get_forecast\<close>. The result is the exception that leaves the
  handler (\<open>Inl\<close>) or the value it returns (\<open>Inr\<close>), with the effects performed.
  \<open>the\<close> is applied only to a value just tested truthy.
\<close>

definition get_forecast ::
  "runtime \<Rightarrow> (jsstring \<Rightarrow> GeocodingResult response) \<Rightarrow> (jsstring \<Rightarrow> OpenMeteoForecast response) \<Rightarrow>
     args \<Rightarrow> (error + tool_result) \<times> effect list"
where
  "get_forecast rt gnet fnet a =
     (if \<not> truthy_num (latitude a) \<or> \<not> truthy_num (longitude a) then
        (if truthy_str (city a) then
           (case geocodeCity gnet (the (city a)) of
              (Inl e, effs) \<Rightarrow> (Inl e, effs)
            | (Inr None, effs) \<Rightarrow> (Inr (text_result (not_found_text (the (city a)))), effs)
            | (Inr (Some geo), effs) \<Rightarrow>
                (let (r, effs') =
                       fetch_and_format rt fnet (loc_latitude geo) (loc_longitude geo) (loc_name geo)
                 in (Inr r, effs @ effs')))
         else
           (let (r, effs) =
                  fetch_and_format rt fnet DEFAULT_LATITUDE DEFAULT_LONGITUDE (Some (ascii ''Kyiv''))
            in (Inr r, effs)))
      else
        (let (r, effs) = fetch_and_format rt fnet (the (latitude a)) (the (longitude a)) None
         in (Inr r, effs)))"

text \<open>
  The schema the server checks the arguments against before it calls the handler:
  any string for the city, a latitude within \<open>[-90, 90]\<close>, a longitude within
  \<open>[-180, 180]\<close>, each of the three optional.
\<close>

definition schema_accepts :: "args \<Rightarrow> bool" where
  "schema_accepts a \<longleftrightarrow>
     (case latitude a of None \<Rightarrow> True | Some x \<Rightarrow> - 90 \<le> x \<and> x \<le> 90) \<and>
     (case longitude a of None \<Rightarrow> True | Some x \<Rightarrow> - 180 \<le> x \<and> x \<le> 180)"

section \<open>Vocabulary of the properties\<close>

text \<open>A string without a newline: one line of the output.\<close>

definition single_line :: "jsstring \<Rightarrow> bool" where
  "single_line s \<longleftrightarrow> NL \<notin> set s"

text \<open>The URLs fetched, in order, among the effects.\<close>

fun fetched :: "effect list \<Rightarrow> jsstring list" where
  "fetched [] = []"
| "fetched (Fetch u # es) = u # fetched es"
| "fetched (ConsoleError # es) = fetched es"

subsection \<open>A sample engine\<close>

text \<open>
  A sample engine, for evaluating the model on numbers with at most four decimals
  and at most fifteen significant digits, where a double and its decimal print
  alike: the number-to-string conversion prints the
  integral digits and the decimals without trailing zeros; \<open>toFixed\<close> rounds
  half up at the requested number of decimals and pads with zeros.
\<close>

fun digits :: "nat \<Rightarrow> jsstring" where
  "digits n = (if n < 10 then [of_nat (0x30 + n)] else digits (n div 10) @ [of_nat (0x30 + n mod 10)])"

declare digits.simps [simp del]

definition sign_text :: "real \<Rightarrow> jsstring" where
  "sign_text x = (if x < 0 then ascii ''-'' else [])"

definition padded :: "nat \<Rightarrow> nat \<Rightarrow> jsstring" where
  "padded d n = replicate (d - length (digits n)) 0x30 @ digits n"

definition fixed_text :: "nat \<Rightarrow> nat \<Rightarrow> jsstring" where
  "fixed_text d n =
     digits (n div 10 ^ d) @ (if d = 0 then [] else ascii ''.'' @ padded d (n mod 10 ^ d))"

definition decimal_toFixed :: "real \<Rightarrow> nat \<Rightarrow> jsstring" where
  "decimal_toFixed x d = sign_text x @ fixed_text d (nat \<lfloor>\<bar>x\<bar> * 10 ^ d + 1 / 2\<rfloor>)"

definition decimals_text :: "jsstring \<Rightarrow> jsstring" where
  "decimals_text ds = (if ds = [] then [] else ascii ''.'' @ ds)"

definition scaled_text :: "nat \<Rightarrow> jsstring" where
  "scaled_text n =
     digits (n div 10 ^ 4)
     @ decimals_text (rev (dropWhile (\<lambda>c. c = 0x30) (rev (padded 4 (n mod 10 ^ 4)))))"

definition decimal_toString :: "real \<Rightarrow> jsstring" where
  "decimal_toString x = sign_text x @ scaled_text (nat \<lfloor>\<bar>x\<bar> * 10 ^ 4\<rfloor>)"

definition decimal_runtime :: runtime where
  "decimal_runtime = \<lparr>num_toString = decimal_toString, num_toFixed = decimal_toFixed\<rparr>"

section \<open>Sample inputs\<close>

definition sample_current :: current_weather where
  "sample_current =
     \<lparr>temperature = 21, windspeed = 10, winddirection = 180, weathercode = 0,
      time = ascii ''2024-05-01T12:00''\<rparr>"

definition sample_dates :: "jsvalue list" where
  "sample_dates =
     [JStr (ascii ''2024-05-01''), JStr (ascii ''2024-05-02''), JStr (ascii ''2024-05-03''),
      JStr (ascii ''2024-05-04''), JStr (ascii ''2024-05-05''), JStr (ascii ''2024-05-06''),
      JStr (ascii ''2024-05-07'')]"

definition sample_daily :: daily where
  "sample_daily =
     \<lparr>daily_time = Some sample_dates,
      temperature_2m_max = Some [JNum 20, JNum 21, JNum 22, JNum 23, JNum 24, JNum 25, JNum 26],
      temperature_2m_min = Some [JNum 10, JNum 11, JNum 12, JNum 13, JNum 14, JNum 15, JNum 16],
      precipitation_sum = Some [JNum 0, JNum 1, JNum 2, JNum 3, JNum 4, JNum 5, JNum 6]\<rparr>"

definition short_daily :: daily where
  "short_daily =
     \<lparr>daily_time = Some (take 3 sample_dates),
      temperature_2m_max = Some [JNum 20, JNum 21, JNum 22],
      temperature_2m_min = Some [JNum 10, JNum 11, JNum 12],
      precipitation_sum = Some [JNum 0, JNum 1, JNum 2]\<rparr>"

definition short_forecast :: OpenMeteoForecast where
  "short_forecast =
     \<lparr>fc_latitude = 50, fc_longitude = 30, generationtime_ms = None, utc_offset_seconds = None,
      timezone = Some DEFAULT_TIMEZONE, current_weather = None, daily = Some short_daily\<rparr>"

definition sample_forecast :: OpenMeteoForecast where
  "sample_forecast =
     \<lparr>fc_latitude = 50, fc_longitude = 30, generationtime_ms = None, utc_offset_seconds = None,
      timezone = Some DEFAULT_TIMEZONE, current_weather = Some sample_current,
      daily = Some sample_daily\<rparr>"

text \<open>
  A geocoding service that finds nothing, one that finds a place, and a forecast
  service that answers every request with the sample payload.
\<close>

definition no_match_net :: "jsstring \<Rightarrow> GeocodingResult response" where
  "no_match_net url = Response True (Body \<lparr>results = None\<rparr>)"

definition lviv_net :: "jsstring \<Rightarrow> GeocodingResult response" where
  "lviv_net url =
     Response True
       (Body \<lparr>results = Some [\<lparr>geo_latitude = 49.8383, geo_longitude = 24.0232,
                                geo_name = ascii ''Lviv'', geo_country = ascii ''Ukraine''\<rparr>]\<rparr>)"

definition sample_net :: "jsstring \<Rightarrow> OpenMeteoForecast response" where
  "sample_net url = Response True (Body sample_forecast)"

section \<open>Splitting and joining lines\<close>

lemma split_nl_not_Nil: "split_nl s \<noteq> []"
  by (induction s) (auto split: list.splits)

lemma split_nl_single: "NL \<notin> set s \<Longrightarrow> split_nl s = [s]"
  by (induction s) auto

lemma split_nl_append_NL: "split_nl (a @ NL # b) = split_nl a @ split_nl b"
proof (induction a)
  case Nil
  show ?case by simp
next
  case (Cons c a)
  obtain l ls where "split_nl a = l # ls"
    using split_nl_not_Nil [of a] by (cases "split_nl a") auto
  with Cons show ?case by simp
qed

lemma join_Cons: "join sep (x # xs) = (if xs = [] then x else x @ sep @ join sep xs)"
  by (cases xs) simp_all

lemma join_append:
  "xs \<noteq> [] \<Longrightarrow> ys \<noteq> [] \<Longrightarrow> join [NL] (xs @ ys) = join [NL] xs @ NL # join [NL] ys"
  by (induction xs) (simp_all add: join_Cons)

lemma join_snoc: "xs \<noteq> [] \<Longrightarrow> join [NL] (xs @ [l]) = join [NL] xs @ NL # l"
  using join_append [of xs "[l]"] by simp

lemma join_text: "xs \<noteq> [] \<Longrightarrow> join [NL] (xs @ ys) = join [NL] xs @ concat (map ((#) NL) ys)"
proof (induction ys arbitrary: xs)
  case Nil
  then show ?case by simp
next
  case (Cons y ys)
  have "join [NL] ((xs @ [y]) @ ys) = join [NL] (xs @ [y]) @ concat (map ((#) NL) ys)"
    by (rule Cons.IH) simp
  then show ?case using Cons.prems by (simp add: join_snoc)
qed

lemma split_nl_lines:
  "\<forall>l \<in> set ys. single_line l \<Longrightarrow> split_nl (s @ concat (map ((#) NL) ys)) = split_nl s @ ys"
proof (induction ys arbitrary: s)
  case Nil
  then show ?case by simp
next
  case (Cons y ys)
  have "split_nl ((s @ NL # y) @ concat (map ((#) NL) ys)) = split_nl (s @ NL # y) @ ys"
    using Cons.prems by (intro Cons.IH) simp
  then show ?case using Cons.prems by (simp add: split_nl_append_NL split_nl_single single_line_def)
qed

lemma daily_loop_eq:
  "daily_loop rt dates mx mn pr i lines =
     lines @ map (daily_line rt dates mx mn pr) [i..<min (length dates) 7]"
proof (induction rt dates mx mn pr i lines rule: daily_loop.induct)
  case (1 rt dates mx mn pr i lines)
  show ?case
  proof (cases "i < min (length dates) 7")
    case True
    then have "[i..<min (length dates) 7] = i # [i + 1..<min (length dates) 7]"
      by (simp add: upt_conv_Cons)
    with True "1" show ?thesis by (subst daily_loop.simps) simp
  next
    case False
    then have "min (length dates) 7 \<le> i" by (simp only: not_less)
    then have "[i..<min (length dates) 7] = []" by (simp only: upt_conv_Nil)
    with False show ?thesis by (subst daily_loop.simps) (simp only: if_False append_Nil2 list.map)
  qed
qed

lemma replicate_numeral: "replicate (numeral k) x = x # replicate (pred_numeral k) x"
  by (simp add: numeral_eq_Suc)

subsection \<open>The text of the formatter, section by section\<close>

lemma format_without_daily:
  "formatForecastText rt lat lon (data\<lparr>daily := None\<rparr>) pn =
     header_line rt lat lon pn @
     (case current_weather data of
        None \<Rightarrow> NL # T_noData
      | Some cur \<Rightarrow>
          [NL, NL] @ current_header @ NL # temperature_line rt cur @ NL # wind_line rt cur
            @ NL # time_line cur)"
  by (simp add: formatForecastText_def split: option.splits)

lemma format_empty_daily:
  "daily data = None \<or> (\<exists>d. daily data = Some d \<and> or_empty (daily_time d) = []) \<Longrightarrow>
   formatForecastText rt lat lon data pn = formatForecastText rt lat lon (data\<lparr>daily := None\<rparr>) pn"
  by (auto simp add: formatForecastText_def Let_def split: option.splits)

lemma format_with_daily:
  assumes "daily data = Some d" and "or_empty (daily_time d) = dates" and "dates \<noteq> []"
  shows "formatForecastText rt lat lon data pn =
     formatForecastText rt lat lon (data\<lparr>daily := None\<rparr>) pn @ [NL, NL] @ daily_header @
     concat (map ((#) NL)
       (map (daily_line rt dates (or_empty (temperature_2m_max d))
               (or_empty (temperature_2m_min d)) (or_empty (precipitation_sum d)))
          [0..<min (length dates) 7]))"
proof -
  define ls where "ls = (case current_weather data of
      Some cur \<Rightarrow> [header_line rt lat lon pn] @
                 [[NL] @ current_header, temperature_line rt cur, wind_line rt cur, time_line cur]
    | None \<Rightarrow> [header_line rt lat lon pn] @ [T_noData])"
  have ne: "ls \<noteq> []" by (simp add: ls_def split: option.splits)
  have a: "formatForecastText rt lat lon (data\<lparr>daily := None\<rparr>) pn = join [NL] ls"
    by (simp add: formatForecastText_def Let_def ls_def)
  have b: "formatForecastText rt lat lon data pn =
      join [NL] ((ls @ [[NL] @ daily_header]) @
        map (daily_line rt dates (or_empty (temperature_2m_max d))
               (or_empty (temperature_2m_min d)) (or_empty (precipitation_sum d)))
          [0..<min (length dates) 7])"
    using assms by (simp add: formatForecastText_def Let_def ls_def daily_loop_eq)
  show ?thesis
    unfolding a b using ne by (simp add: join_text join_snoc)
qed

lemma single_line_consts:
  "single_line T_noData" "single_line current_header" "single_line daily_header" "single_line []"
  by (simp_all add: single_line_def T_noData_def current_header_def daily_header_def T_current_def
        NL_def ascii_def)

lemma split_nl_header:
  "single_line h \<Longrightarrow> split_nl (h @ NL # rest) = h # split_nl rest"
  by (simp add: split_nl_append_NL split_nl_single single_line_def)

lemma split_without_daily:
  assumes "single_line (header_line rt lat lon pn)"
    and "\<And>cur. current_weather data = Some cur \<Longrightarrow>
           single_line (temperature_line rt cur) \<and> single_line (wind_line rt cur)
           \<and> single_line (time_line cur)"
  shows "split_nl (formatForecastText rt lat lon (data\<lparr>daily := None\<rparr>) pn) =
     header_line rt lat lon pn #
     (case current_weather data of
        None \<Rightarrow> [T_noData]
      | Some cur \<Rightarrow> [[], current_header, temperature_line rt cur, wind_line rt cur, time_line cur])"
proof (cases "current_weather data")
  case None
  then show ?thesis
    using assms(1) single_line_consts
    by (simp add: format_without_daily split_nl_header split_nl_single single_line_def)
next
  case (Some cur)
  have "split_nl (header_line rt lat lon pn @ concat (map ((#) NL)
          [[], current_header, temperature_line rt cur, wind_line rt cur, time_line cur])) =
        split_nl (header_line rt lat lon pn) @
          [[], current_header, temperature_line rt cur, wind_line rt cur, time_line cur]"
    using assms(2)[OF Some] single_line_consts by (intro split_nl_lines) simp
  with Some assms(1) show ?thesis
    by (simp add: format_without_daily split_nl_single single_line_def)
qed


lemma split_with_daily:
  assumes "daily data = Some d" and "or_empty (daily_time d) = dates" and "dates \<noteq> []"
    and "\<forall>l \<in> set (map (daily_line rt dates mx mn pr) [0..<min (length dates) 7]). single_line l"
    and "mx = or_empty (temperature_2m_max d)" and "mn = or_empty (temperature_2m_min d)"
    and "pr = or_empty (precipitation_sum d)"
  shows "split_nl (formatForecastText rt lat lon data pn) =
     split_nl (formatForecastText rt lat lon (data\<lparr>daily := None\<rparr>) pn) @ [[], daily_header] @
     map (daily_line rt dates mx mn pr) [0..<min (length dates) 7]"
proof -
  let ?ds = "map (daily_line rt dates mx mn pr) [0..<min (length dates) 7]"
  let ?base = "formatForecastText rt lat lon (data\<lparr>daily := None\<rparr>) pn"
  have "formatForecastText rt lat lon data pn = ?base @ concat (map ((#) NL) ([[], daily_header] @ ?ds))"
    using format_with_daily [OF assms(1-3), of rt lat lon pn] assms(5-7) by simp
  moreover have "\<forall>l \<in> set ([[], daily_header] @ ?ds). single_line l"
    using assms(4) single_line_consts by simp
  ultimately show ?thesis
    using split_nl_lines [of "[[], daily_header] @ ?ds" ?base] by simp
qed

lemma format_starts_with_header:
  "\<exists>rest. formatForecastText rt lat lon data pn = header_line rt lat lon pn @ NL # rest"
proof -
  have a: "\<exists>rest. formatForecastText rt lat lon (data\<lparr>daily := None\<rparr>) pn
             = header_line rt lat lon pn @ NL # rest"
    by (simp add: format_without_daily split: option.splits)
  show ?thesis
  proof (cases "daily data = None \<or> (\<exists>d. daily data = Some d \<and> or_empty (daily_time d) = [])")
    case True
    then show ?thesis using a by (simp only: format_empty_daily)
  next
    case False
    then obtain d where d: "daily data = Some d" "or_empty (daily_time d) \<noteq> []" by auto
    from a obtain rest where "formatForecastText rt lat lon (data\<lparr>daily := None\<rparr>) pn
             = header_line rt lat lon pn @ NL # rest" by blast
    then show ?thesis
      using format_with_daily [OF d(1) refl d(2), of rt lat lon pn] by simp
  qed
qed

lemma first_line_is_header:
  "single_line (header_line rt lat lon pn) \<Longrightarrow>
   hd (split_nl (formatForecastText rt lat lon data pn)) = header_line rt lat lon pn"
  using format_starts_with_header [of rt lat lon data pn]
  by (auto simp add: split_nl_header)

section \<open>Effects of the handler\<close>

lemma makeRequest_fetched: "fetched (snd (makeRequest net url)) = [url]"
  by (simp add: makeRequest_def split: response.splits body.splits)

lemma geocodeCity_fetched:
  "fetched (snd (geocodeCity gnet c)) =
     (case encodeURIComponent c of Inl e \<Rightarrow> [] | Inr enc \<Rightarrow> [geocode_url enc])"
proof (cases "encodeURIComponent c")
  case (Inl e)
  then show ?thesis by (simp add: geocodeCity_def)
next
  case (Inr enc)
  then show ?thesis
    using makeRequest_fetched [of gnet "geocode_url enc"]
    by (auto simp add: geocodeCity_def split: prod.splits option.splits)
qed

lemma geocodeCity_Inr:
  "fst (geocodeCity gnet c) = Inr r \<Longrightarrow> \<exists>enc. encodeURIComponent c = Inr enc"
  by (cases "encodeURIComponent c") (simp_all add: geocodeCity_def)

lemma geocode_url_not_forecast: "geocode_url enc \<noteq> forecast_url rt lat lon"
proof
  assume "geocode_url enc = forecast_url rt lat lon"
  then have "take 9 (geocode_url enc) = take 9 (forecast_url rt lat lon)" by simp
  then show False
    by (simp add: geocode_url_def forecast_url_def GEOCODING_BASE_def FORECAST_BASE_def ascii_def)
qed

lemma get_forecast_default:
  assumes "\<not> truthy_num (latitude a) \<or> \<not> truthy_num (longitude a)" and "\<not> truthy_str (city a)"
  shows "get_forecast rt gnet fnet a =
     (case makeRequest fnet (forecast_url rt DEFAULT_LATITUDE DEFAULT_LONGITUDE) of
        (None, effs) \<Rightarrow> (Inr (text_result fetch_error_text), effs)
      | (Some d, effs) \<Rightarrow>
          (Inr (text_result (formatForecastText rt DEFAULT_LATITUDE DEFAULT_LONGITUDE d
                  (Some (ascii ''Kyiv'')))), effs))"
  using assms
  by (simp add: get_forecast_def fetch_and_format_def split: prod.splits option.splits)

lemma forecast_url_text:
  "forecast_url rt lat lon =
     FORECAST_BASE @ ascii ''?latitude='' @ form_encode (num_toString rt lat)
     @ ascii ''&longitude='' @ form_encode (num_toString rt lon)
     @ ascii ''&current_weather=true&daily=temperature_2m_max%2Ctemperature_2m_min%2Cprecipitation_sum&timezone=Europe%2FKyiv&temperature_unit=celsius&windspeed_unit=kmh''"
proof -
  have c: "form_encode (ascii ''latitude'') = ascii ''latitude''"
    "form_encode (ascii ''longitude'') = ascii ''longitude''"
    "form_encode (ascii ''current_weather'') = ascii ''current_weather''"
    "form_encode (ascii ''true'') = ascii ''true''"
    "form_encode (ascii ''daily'') = ascii ''daily''"
    "form_encode (ascii ''temperature_2m_max,temperature_2m_min,precipitation_sum'')
       = ascii ''temperature_2m_max%2Ctemperature_2m_min%2Cprecipitation_sum''"
    "form_encode (ascii ''timezone'') = ascii ''timezone''"
    "form_encode DEFAULT_TIMEZONE = ascii ''Europe%2FKyiv''"
    "form_encode (ascii ''temperature_unit'') = ascii ''temperature_unit''"
    "form_encode (ascii ''celsius'') = ascii ''celsius''"
    "form_encode (ascii ''windspeed_unit'') = ascii ''windspeed_unit''"
    "form_encode (ascii ''kmh'') = ascii ''kmh''"
    by (simp_all add: form_encode_def ascii_def is_trail_def is_lead_def utf8_bytes_def
          form_byte_def is_alnum_def percent_byte_def hex_digit_def DEFAULT_TIMEZONE_def)
  show ?thesis
    unfolding forecast_url_def URLSearchParams_toString_def
    by (simp add: c) (simp add: ascii_def)
qed

lemma forecast_null_message:
  "fst (makeRequest fnet (forecast_url rt lat lon)) = None \<Longrightarrow>
   fst (fetch_and_format rt fnet lat lon pn) = text_result fetch_error_text"
  by (auto simp add: fetch_and_format_def split: prod.splits option.splits)

lemma get_forecast_returns:
  assumes "truthy_num (latitude a) \<and> truthy_num (longitude a) \<or> \<not> truthy_str (city a)
           \<or> (\<exists>enc. encodeURIComponent (the (city a)) = Inr enc)"
  shows "\<exists>r. fst (get_forecast rt gnet fnet a) = Inr r"
  using assms
  by (auto simp add: get_forecast_def geocodeCity_def Let_def
        split: prod.splits sum.splits option.splits)

subsection \<open>Evaluation of the samples\<close>

lemmas eval_defs = ascii_def NL_def decimal_runtime_def decimal_toString_def decimal_toFixed_def
  sign_text_def padded_def fixed_text_def decimals_text_def scaled_text_def digits.simps index_def or_empty_def
  daily_line_def T_temperature_def T_forecastFor_def T_wind_def T_noData_def T_current_def
  current_header_def daily_header_def header_line_def location_text_def temperature_line_def
  wind_line_def time_line_def truthy_str_def single_line_def replicate_numeral
  sample_current_def sample_dates_def sample_daily_def short_daily_def short_forecast_def
  sample_forecast_def DEFAULT_TIMEZONE_def

lemma upt7: "[0..<7] = [0, 1, 2, 3, 4, 5, 6]" "[0..<3] = [0, 1, 2]"
  by (simp_all add: upt_rec)

lemma short_lines_single:
  "\<forall>l \<in> set (map (daily_line decimal_runtime (take 3 sample_dates)
      (or_empty (temperature_2m_max short_daily)) (or_empty (temperature_2m_min short_daily))
      (or_empty (precipitation_sum short_daily))) [0..<min (length (take 3 sample_dates)) 7]).
    single_line l"
  by (simp add: eval_defs upt7)

lemma sample_lines_single:
  "single_line (header_line decimal_runtime 50 30 (Some (ascii ''Kyiv'')))"
  "single_line (temperature_line decimal_runtime sample_current)"
  "single_line (wind_line decimal_runtime sample_current)"
  "single_line (time_line sample_current)"
  by (simp_all add: eval_defs)

lemma sample_daily_single:
  "\<forall>i < min (length sample_dates) 7.
     single_line (daily_line decimal_runtime sample_dates (or_empty (temperature_2m_max sample_daily))
       (or_empty (temperature_2m_min sample_daily)) (or_empty (precipitation_sum sample_daily)) i)"
proof -
  have "\<forall>i \<in> set [0..<7].
     single_line (daily_line decimal_runtime sample_dates (or_empty (temperature_2m_max sample_daily))
       (or_empty (temperature_2m_min sample_daily)) (or_empty (precipitation_sum sample_daily)) i)"
    unfolding upt7 by (simp add: eval_defs)
  moreover have "min (length sample_dates) 7 = 7" by (simp add: sample_dates_def)
  ultimately show ?thesis by simp
qed

lemma short_forecast_facts:
  "current_weather short_forecast = None"
  "daily short_forecast = Some short_daily"
  "or_empty (daily_time short_daily) \<noteq> []"
  by (simp_all add: short_forecast_def short_daily_def or_empty_def sample_dates_def)

lemma encode_Atlantis: "encodeURIComponent (ascii ''Atlantis'') = Inr (ascii ''Atlantis'')"
  by (simp add: ascii_def uri_unescaped_def is_alnum_def)

lemma encode_Lviv: "encodeURIComponent (ascii ''Lviv'') = Inr (ascii ''Lviv'')"
  by (simp add: ascii_def uri_unescaped_def is_alnum_def)

lemma geocode_Atlantis:
  "geocodeCity no_match_net (ascii ''Atlantis'') = (Inr None, [Fetch (geocode_url (ascii ''Atlantis''))])"
  by (simp add: geocodeCity_def encode_Atlantis makeRequest_def no_match_net_def first_result_def)

lemma geocode_Lviv:
  "geocodeCity lviv_net (ascii ''Lviv'') =
     (Inr (Some \<lparr>loc_latitude = 49.8383, loc_longitude = 24.0232, loc_name = Some (ascii ''Lviv'')\<rparr>),
      [Fetch (geocode_url (ascii ''Lviv''))])"
  by (simp add: geocodeCity_def encode_Lviv makeRequest_def lviv_net_def first_result_def)

lemma fetch_sample:
  "fetch_and_format rt sample_net lat lon pn =
     (text_result (formatForecastText rt lat lon sample_forecast pn), [Fetch (forecast_url rt lat lon)])"
  by (simp add: fetch_and_format_def makeRequest_def sample_net_def)

lemma encode_decimals:
  "form_encode (ascii ''50.4501'') = ascii ''50.4501''"
  "form_encode (ascii ''30.5234'') = ascii ''30.5234''"
  by (simp_all add: form_encode_def ascii_def is_trail_def is_lead_def utf8_bytes_def
        form_byte_def is_alnum_def)

lemma decimal_defaults:
  "num_toString decimal_runtime 50.4501 = ascii ''50.4501''"
  "num_toString decimal_runtime 30.5234 = ascii ''30.5234''"
  by (simp_all add: eval_defs)

lemma encode_lone_surrogate: "encodeURIComponent [0xD800] = Inl URIError"
  by (simp add: uri_unescaped_def is_alnum_def ascii_def is_trail_def is_lead_def)

section \<open>Properties of the formatter\<close>

text \<open>
  C4, as the code has it. For a payload with a current-conditions record and a daily
  series of at least one date, whose rendered lines contain no newline, the output
  split on newlines is exactly: the header line; a blank line and the
  current-conditions block of four lines (its sub-header, then temperature, wind
  and time); a blank line and the daily header; and \<open>min 7 n\<close> daily lines, where
  \<open>n\<close> is the number of dates. That is \<open>1 + (1 + 4) + (1 + 1) + min 7 n\<close> lines:
  the block has four lines, not three.
\<close>

theorem forecast_layout:
  assumes "current_weather data = Some cur" and "daily data = Some d"
    and "or_empty (daily_time d) = dates" and "dates \<noteq> []"
    and "single_line (header_line rt lat lon pn)"
    and "single_line (temperature_line rt cur)" and "single_line (wind_line rt cur)"
    and "single_line (time_line cur)"
    and "\<forall>i < min (length dates) 7.
           single_line (daily_line rt dates (or_empty (temperature_2m_max d))
             (or_empty (temperature_2m_min d)) (or_empty (precipitation_sum d)) i)"
  shows "split_nl (formatForecastText rt lat lon data pn) =
           [header_line rt lat lon pn,
            [], current_header, temperature_line rt cur, wind_line rt cur, time_line cur,
            [], daily_header]
           @ map (daily_line rt dates (or_empty (temperature_2m_max d))
                    (or_empty (temperature_2m_min d)) (or_empty (precipitation_sum d)))
               [0..<min (length dates) 7]
         \<and> length (split_nl (formatForecastText rt lat lon data pn)) =
             1 + (1 + 4) + (1 + 1) + min 7 (length dates)"
proof -
  have a: "split_nl (formatForecastText rt lat lon (data\<lparr>daily := None\<rparr>) pn) =
      [header_line rt lat lon pn, [], current_header, temperature_line rt cur, wind_line rt cur,
       time_line cur]"
    using assms(1,5-8) by (subst split_without_daily) simp_all
  have b: "split_nl (formatForecastText rt lat lon data pn) =
      split_nl (formatForecastText rt lat lon (data\<lparr>daily := None\<rparr>) pn) @ [[], daily_header] @
      map (daily_line rt dates (or_empty (temperature_2m_max d))
             (or_empty (temperature_2m_min d)) (or_empty (precipitation_sum d)))
        [0..<min (length dates) 7]"
    using assms(9) by (intro split_with_daily [OF assms(2-4)]) simp_all
  show ?thesis unfolding b a by (simp add: min.commute)
qed

theorem forecast_layout_witness:
  "current_weather sample_forecast = Some sample_current
   \<and> daily sample_forecast = Some sample_daily
   \<and> or_empty (daily_time sample_daily) = sample_dates
   \<and> sample_dates \<noteq> []
   \<and> length (split_nl (formatForecastText decimal_runtime 50 30 sample_forecast
               (Some (ascii ''Kyiv'')))) = 15"
proof -
  have h1: "current_weather sample_forecast = Some sample_current"
    and h2: "daily sample_forecast = Some sample_daily"
    by (simp_all add: sample_forecast_def)
  have h3: "or_empty (daily_time sample_daily) = sample_dates"
    by (simp add: sample_daily_def or_empty_def)
  have h4: "sample_dates \<noteq> []" by (simp add: sample_dates_def)
  have "length (split_nl (formatForecastText decimal_runtime 50 30 sample_forecast
               (Some (ascii ''Kyiv'')))) = 1 + (1 + 4) + (1 + 1) + min 7 (length sample_dates)"
    using forecast_layout [OF h1 h2 h3 h4 sample_lines_single sample_daily_single] by blast
  then have "length (split_nl (formatForecastText decimal_runtime 50 30 sample_forecast
               (Some (ascii ''Kyiv'')))) = 15"
    by (simp add: sample_dates_def)
  with h1 h2 h3 h4 show ?thesis by simp
qed

text \<open>
  The count of C4 as stated, \<open>1 + (1 + 3) + (1 + 1) + min 7 n\<close>, fails on a payload
  with current conditions and seven days: the output has fifteen lines.
\<close>

theorem forecast_layout_counterexample:
  "current_weather sample_forecast = Some sample_current
   \<and> daily sample_forecast = Some sample_daily
   \<and> length (or_empty (daily_time sample_daily)) = 7
   \<and> length (split_nl (formatForecastText decimal_runtime 50 30 sample_forecast
               (Some (ascii ''Kyiv''))))
       \<noteq> 1 + (1 + 3) + (1 + 1) + min 7 (length (or_empty (daily_time sample_daily)))"
proof -
  have h2: "daily sample_forecast = Some sample_daily" by (simp add: sample_forecast_def)
  have h3: "or_empty (daily_time sample_daily) = sample_dates"
    by (simp add: sample_daily_def or_empty_def)
  have h4: "sample_dates \<noteq> []" and n: "length sample_dates = 7" by (simp_all add: sample_dates_def)
  have a: "split_nl (formatForecastText decimal_runtime 50 30 (sample_forecast\<lparr>daily := None\<rparr>)
              (Some (ascii ''Kyiv''))) =
      header_line decimal_runtime 50 30 (Some (ascii ''Kyiv'')) #
      [[], current_header, temperature_line decimal_runtime sample_current,
       wind_line decimal_runtime sample_current, time_line sample_current]"
    using sample_lines_single
    by (subst split_without_daily) (simp_all add: sample_forecast_def)
  have b: "split_nl (formatForecastText decimal_runtime 50 30 sample_forecast (Some (ascii ''Kyiv''))) =
      split_nl (formatForecastText decimal_runtime 50 30 (sample_forecast\<lparr>daily := None\<rparr>)
         (Some (ascii ''Kyiv''))) @ [[], daily_header] @
      map (daily_line decimal_runtime sample_dates (or_empty (temperature_2m_max sample_daily))
             (or_empty (temperature_2m_min sample_daily)) (or_empty (precipitation_sum sample_daily)))
        [0..<min (length sample_dates) 7]"
    using sample_daily_single by (intro split_with_daily [OF h2 h3 h4]) simp_all
  have "length (split_nl (formatForecastText decimal_runtime 50 30 sample_forecast
               (Some (ascii ''Kyiv'')))) = 15"
    unfolding b a by (simp add: n)
  then show ?thesis by (simp add: h3 n sample_forecast_def)
qed

text \<open>
  C6. A daily series with \<open>n > 0\<close> dates adds to the output of the same payload
  without its daily series a blank line, the daily header and one line for each of
  the first \<open>min n 7\<close> days: exactly \<open>n\<close> daily lines when \<open>n < 7\<close>, exactly
  seven otherwise. When no daily line contains a newline these are lines of the
  output split on newlines.
\<close>

theorem daily_lines_count:
  assumes "daily data = Some d" and "or_empty (daily_time d) = dates" and "dates \<noteq> []"
  shows "let ds = map (daily_line rt dates (or_empty (temperature_2m_max d))
                         (or_empty (temperature_2m_min d)) (or_empty (precipitation_sum d)))
                    [0..<min (length dates) 7]
         in formatForecastText rt lat lon data pn =
              formatForecastText rt lat lon (data\<lparr>daily := None\<rparr>) pn @ [NL, NL] @ daily_header @
              concat (map ((#) NL) ds)
          \<and> length ds = (if length dates < 7 then length dates else 7)
          \<and> ((\<forall>l \<in> set ds. single_line l) \<longrightarrow>
               split_nl (formatForecastText rt lat lon data pn) =
                 split_nl (formatForecastText rt lat lon (data\<lparr>daily := None\<rparr>) pn)
                 @ [[], daily_header] @ ds)"
  unfolding Let_def
proof (intro conjI impI)
  show "formatForecastText rt lat lon data pn =
      formatForecastText rt lat lon (data\<lparr>daily := None\<rparr>) pn @ [NL, NL] @ daily_header @
      concat (map ((#) NL) (map (daily_line rt dates (or_empty (temperature_2m_max d))
        (or_empty (temperature_2m_min d)) (or_empty (precipitation_sum d))) [0..<min (length dates) 7]))"
    by (rule format_with_daily [OF assms])
next
  show "length (map (daily_line rt dates (or_empty (temperature_2m_max d))
        (or_empty (temperature_2m_min d)) (or_empty (precipitation_sum d))) [0..<min (length dates) 7])
      = (if length dates < 7 then length dates else 7)"
    by simp
next
  assume "\<forall>l \<in> set (map (daily_line rt dates (or_empty (temperature_2m_max d))
        (or_empty (temperature_2m_min d)) (or_empty (precipitation_sum d))) [0..<min (length dates) 7]).
      single_line l"
  then show "split_nl (formatForecastText rt lat lon data pn) =
      split_nl (formatForecastText rt lat lon (data\<lparr>daily := None\<rparr>) pn) @ [[], daily_header] @
      map (daily_line rt dates (or_empty (temperature_2m_max d))
        (or_empty (temperature_2m_min d)) (or_empty (precipitation_sum d))) [0..<min (length dates) 7]"
    by (intro split_with_daily [OF assms]) simp_all
qed

theorem daily_lines_count_witness:
  "daily short_forecast = Some short_daily
   \<and> or_empty (daily_time short_daily) = take 3 sample_dates
   \<and> take 3 sample_dates \<noteq> []
   \<and> length (split_nl (formatForecastText decimal_runtime 50 30 short_forecast None)) =
       length (split_nl (formatForecastText decimal_runtime 50 30
                 (short_forecast\<lparr>daily := None\<rparr>) None)) + 2 + 3"
proof -
  have h1: "daily short_forecast = Some short_daily" by (simp add: short_forecast_def)
  have h2: "or_empty (daily_time short_daily) = take 3 sample_dates"
    by (simp add: short_daily_def or_empty_def)
  have h3: "take 3 sample_dates \<noteq> []" by (simp add: sample_dates_def)
  have n: "min (length (take 3 sample_dates)) 7 = 3" by (simp add: sample_dates_def)
  note c = daily_lines_count [OF h1 h2 h3, of decimal_runtime 50 30 None, unfolded Let_def]
  from c short_lines_single
  have "split_nl (formatForecastText decimal_runtime 50 30 short_forecast None) =
      split_nl (formatForecastText decimal_runtime 50 30 (short_forecast\<lparr>daily := None\<rparr>) None)
      @ [[], daily_header] @ map (daily_line decimal_runtime (take 3 sample_dates)
      (or_empty (temperature_2m_max short_daily)) (or_empty (temperature_2m_min short_daily))
      (or_empty (precipitation_sum short_daily))) [0..<min (length (take 3 sample_dates)) 7]"
    by blast
  then have "length (split_nl (formatForecastText decimal_runtime 50 30 short_forecast None)) =
       length (split_nl (formatForecastText decimal_runtime 50 30
                 (short_forecast\<lparr>daily := None\<rparr>) None)) + 2 + 3"
    by (simp add: sample_dates_def)
  with h1 h2 h3 show ?thesis by simp
qed

text \<open>
  C5, as the code has it. The output begins with the header, followed by a newline:
  the label \<open>T.forecastFor\<close>, a space, and then the display name followed by the
  two coordinates at four decimals in parentheses when a non-empty display name is
  given, the two coordinates alone otherwise. When the header contains no newline
  it is the first line of the output.
\<close>

theorem header_text:
  "let coords = num_toFixed rt lat 4 @ ascii '', '' @ num_toFixed rt lon 4;
       header = T_forecastFor @ ascii '' '' @
         (case placeName of
            None \<Rightarrow> coords
          | Some name \<Rightarrow> if name = [] then coords else name @ ascii '' ('' @ coords @ ascii '')'')
   in (\<exists>rest. formatForecastText rt lat lon data placeName = header @ NL # rest)
      \<and> (single_line header \<longrightarrow>
           hd (split_nl (formatForecastText rt lat lon data placeName)) = header)"
proof -
  have h: "header_line rt lat lon placeName = T_forecastFor @ ascii '' '' @
         (case placeName of
            None \<Rightarrow> num_toFixed rt lat 4 @ ascii '', '' @ num_toFixed rt lon 4
          | Some name \<Rightarrow>
              if name = [] then num_toFixed rt lat 4 @ ascii '', '' @ num_toFixed rt lon 4
              else name @ ascii '' ('' @ (num_toFixed rt lat 4 @ ascii '', '' @ num_toFixed rt lon 4)
                     @ ascii '')'')"
    by (simp add: header_line_def location_text_def truthy_str_def split: option.splits)
  show ?thesis
    unfolding Let_def h [symmetric]
    using format_starts_with_header [of rt lat lon data placeName]
      first_line_is_header [of rt lat lon placeName data]
    by blast
qed

theorem header_text_witness:
  "single_line (T_forecastFor @ ascii '' Kyiv (50.4501, 30.5234)'')
   \<and> hd (split_nl (formatForecastText decimal_runtime 50.4501 30.5234 sample_forecast
              (Some (ascii ''Kyiv''))))
       = T_forecastFor @ ascii '' Kyiv (50.4501, 30.5234)''"
proof -
  have e: "T_forecastFor @ ascii '' '' @
         (case Some (ascii ''Kyiv'') of
            None \<Rightarrow> num_toFixed decimal_runtime 50.4501 4 @ ascii '', ''
                     @ num_toFixed decimal_runtime 30.5234 4
          | Some name \<Rightarrow>
              if name = [] then num_toFixed decimal_runtime 50.4501 4 @ ascii '', ''
                     @ num_toFixed decimal_runtime 30.5234 4
              else name @ ascii '' ('' @ (num_toFixed decimal_runtime 50.4501 4 @ ascii '', ''
                     @ num_toFixed decimal_runtime 30.5234 4) @ ascii '')'')
      = T_forecastFor @ ascii '' Kyiv (50.4501, 30.5234)''"
    by (simp add: eval_defs)
  have s: "single_line (T_forecastFor @ ascii '' Kyiv (50.4501, 30.5234)'')"
    by (simp add: eval_defs)
  from header_text [where rt = decimal_runtime and lat = "50.4501" and lon = "30.5234"
      and data = sample_forecast and placeName = "Some (ascii ''Kyiv'')", unfolded Let_def e] s
  show ?thesis by blast
qed

text \<open>
  C5 as stated fails for a display name: the first line is neither the label
  followed by the name alone nor the label followed by the coordinates alone; the
  coordinates follow the name, in parentheses.
\<close>

theorem header_text_counterexample:
  "hd (split_nl (formatForecastText decimal_runtime 50.4501 30.5234 sample_forecast
         (Some (ascii ''Kyiv''))))
     \<noteq> T_forecastFor @ ascii '' '' @ ascii ''Kyiv''
   \<and> hd (split_nl (formatForecastText decimal_runtime 50.4501 30.5234 sample_forecast
         (Some (ascii ''Kyiv''))))
     \<noteq> T_forecastFor @ ascii '' '' @ ascii ''50.4501, 30.5234''"
proof -
  have "single_line (header_line decimal_runtime 50.4501 30.5234 (Some (ascii ''Kyiv'')))"
    by (simp add: eval_defs)
  then have "hd (split_nl (formatForecastText decimal_runtime 50.4501 30.5234 sample_forecast
         (Some (ascii ''Kyiv''))))
      = header_line decimal_runtime 50.4501 30.5234 (Some (ascii ''Kyiv''))"
    by (rule first_line_is_header)
  then show ?thesis by (simp add: eval_defs)
qed

text \<open>
  C7. Without a current-conditions record the output is the header, the line
  \<open>T.noData\<close>, and then the daily section alone (nothing when the daily series is
  absent or has no date): no sub-header, temperature, wind or time line. Without a
  daily series the output is the header and the current-conditions part alone: no
  daily header and no daily line.
\<close>

theorem missing_sections:
  "(current_weather data = None \<longrightarrow>
      formatForecastText rt lat lon data placeName =
        header_line rt lat lon placeName @ NL # T_noData @
        (case daily data of
           None \<Rightarrow> []
         | Some d \<Rightarrow>
             if or_empty (daily_time d) = [] then []
             else [NL, NL] @ daily_header @
                  concat (map ((#) NL)
                    (map (daily_line rt (or_empty (daily_time d)) (or_empty (temperature_2m_max d))
                            (or_empty (temperature_2m_min d)) (or_empty (precipitation_sum d)))
                       [0..<min (length (or_empty (daily_time d))) 7]))))
   \<and> (daily data = None \<longrightarrow>
      formatForecastText rt lat lon data placeName =
        header_line rt lat lon placeName @
        (case current_weather data of
           None \<Rightarrow> NL # T_noData
         | Some cur \<Rightarrow>
             [NL, NL] @ current_header @ NL # temperature_line rt cur @ NL # wind_line rt cur
               @ NL # time_line cur))"
proof (intro conjI impI)
  assume cw: "current_weather data = None"
  have base: "formatForecastText rt lat lon (data\<lparr>daily := None\<rparr>) placeName =
      header_line rt lat lon placeName @ NL # T_noData"
    using cw by (simp add: format_without_daily)
  show "formatForecastText rt lat lon data placeName =
        header_line rt lat lon placeName @ NL # T_noData @
        (case daily data of
           None \<Rightarrow> []
         | Some d \<Rightarrow>
             if or_empty (daily_time d) = [] then []
             else [NL, NL] @ daily_header @
                  concat (map ((#) NL)
                    (map (daily_line rt (or_empty (daily_time d)) (or_empty (temperature_2m_max d))
                            (or_empty (temperature_2m_min d)) (or_empty (precipitation_sum d)))
                       [0..<min (length (or_empty (daily_time d))) 7])))"
  proof (cases "daily data")
    case None
    then show ?thesis
      using base format_empty_daily [of data rt lat lon placeName] by simp
  next
    case (Some d)
    show ?thesis
    proof (cases "or_empty (daily_time d) = []")
      case True
      with Some show ?thesis
        using base format_empty_daily [of data rt lat lon placeName] by simp
    next
      case False
      show ?thesis
        using format_with_daily [OF Some refl False, of rt lat lon placeName] Some False base
        by simp
    qed
  qed
next
  assume d: "daily data = None"
  then have "formatForecastText rt lat lon data placeName =
      formatForecastText rt lat lon (data\<lparr>daily := None\<rparr>) placeName"
    using format_empty_daily [of data rt lat lon placeName] by simp
  then show "formatForecastText rt lat lon data placeName =
        header_line rt lat lon placeName @
        (case current_weather data of
           None \<Rightarrow> NL # T_noData
         | Some cur \<Rightarrow>
             [NL, NL] @ current_header @ NL # temperature_line rt cur @ NL # wind_line rt cur
               @ NL # time_line cur)"
    by (simp only: format_without_daily)
qed

theorem missing_sections_witness:
  "current_weather short_forecast = None
   \<and> formatForecastText decimal_runtime 50.4501 30.5234 short_forecast None =
       header_line decimal_runtime 50.4501 30.5234 None @ NL # T_noData @ [NL, NL] @ daily_header @
       concat (map ((#) NL)
         (map (daily_line decimal_runtime (or_empty (daily_time short_daily))
                 (or_empty (temperature_2m_max short_daily))
                 (or_empty (temperature_2m_min short_daily))
                 (or_empty (precipitation_sum short_daily)))
            [0..<min (length (or_empty (daily_time short_daily))) 7]))
   \<and> daily (sample_forecast\<lparr>daily := None\<rparr>) = None
   \<and> formatForecastText decimal_runtime 50.4501 30.5234 (sample_forecast\<lparr>daily := None\<rparr>) None =
       header_line decimal_runtime 50.4501 30.5234 None @ [NL, NL] @ current_header
       @ NL # temperature_line decimal_runtime sample_current
       @ NL # wind_line decimal_runtime sample_current @ NL # time_line sample_current"
proof -
  have c: "current_weather (sample_forecast\<lparr>daily := None\<rparr>) = Some sample_current"
    by (simp add: sample_forecast_def)
  show ?thesis
    using missing_sections [where rt = decimal_runtime and lat = "50.4501" and lon = "30.5234"
        and data = short_forecast and placeName = None]
      missing_sections [where rt = decimal_runtime and lat = "50.4501" and lon = "30.5234"
        and data = "sample_forecast\<lparr>daily := None\<rparr>" and placeName = None]
      short_forecast_facts c
    by simp
qed

text \<open>
  C10, as the code has it. For every coordinate pair, display name and payload the
  output is not empty and begins with the header followed by a newline; the header
  is the first line of the output when it contains no newline, that is when the
  display name and the rendered coordinates contain none. With neither current
  conditions nor a daily series the output is the header and the line
  \<open>T.noData\<close>; with no current conditions and a daily series of at least one
  date, the daily section follows the line \<open>T.noData\<close>.
\<close>

theorem nonempty_header_first:
  "formatForecastText rt lat lon data placeName \<noteq> []
   \<and> (\<exists>rest. formatForecastText rt lat lon data placeName
                = header_line rt lat lon placeName @ NL # rest)
   \<and> (single_line (header_line rt lat lon placeName) \<longrightarrow>
        hd (split_nl (formatForecastText rt lat lon data placeName))
          = header_line rt lat lon placeName)
   \<and> (current_weather data = None \<and> daily data = None \<longrightarrow>
        formatForecastText rt lat lon data placeName
          = header_line rt lat lon placeName @ NL # T_noData)
   \<and> (current_weather data = None \<and> daily data = Some d \<and> or_empty (daily_time d) \<noteq> [] \<longrightarrow>
        formatForecastText rt lat lon data placeName
          = header_line rt lat lon placeName @ NL # T_noData @ [NL, NL] @ daily_header @
            concat (map ((#) NL)
              (map (daily_line rt (or_empty (daily_time d)) (or_empty (temperature_2m_max d))
                      (or_empty (temperature_2m_min d)) (or_empty (precipitation_sum d)))
                 [0..<min (length (or_empty (daily_time d))) 7])))"
proof (intro conjI impI)
  show "formatForecastText rt lat lon data placeName \<noteq> []"
    using format_starts_with_header [of rt lat lon data placeName] by auto
next
  show "\<exists>rest. formatForecastText rt lat lon data placeName
                = header_line rt lat lon placeName @ NL # rest"
    by (rule format_starts_with_header)
next
  assume "single_line (header_line rt lat lon placeName)"
  then show "hd (split_nl (formatForecastText rt lat lon data placeName))
          = header_line rt lat lon placeName"
    by (rule first_line_is_header)
next
  assume a: "current_weather data = None \<and> daily data = None"
  then have "formatForecastText rt lat lon data placeName =
      formatForecastText rt lat lon (data\<lparr>daily := None\<rparr>) placeName"
    using format_empty_daily [of data rt lat lon placeName] by simp
  with a show "formatForecastText rt lat lon data placeName
          = header_line rt lat lon placeName @ NL # T_noData"
    by (simp add: format_without_daily)
next
  assume a: "current_weather data = None \<and> daily data = Some d \<and> or_empty (daily_time d) \<noteq> []"
  then have d: "daily data = Some d" and ne: "or_empty (daily_time d) \<noteq> []" by simp_all
  have "formatForecastText rt lat lon (data\<lparr>daily := None\<rparr>) placeName =
      header_line rt lat lon placeName @ NL # T_noData"
    using a by (simp add: format_without_daily)
  then show "formatForecastText rt lat lon data placeName
          = header_line rt lat lon placeName @ NL # T_noData @ [NL, NL] @ daily_header @
            concat (map ((#) NL)
              (map (daily_line rt (or_empty (daily_time d)) (or_empty (temperature_2m_max d))
                      (or_empty (temperature_2m_min d)) (or_empty (precipitation_sum d)))
                 [0..<min (length (or_empty (daily_time d))) 7]))"
    using format_with_daily [OF d refl ne, of rt lat lon placeName] by simp
qed

theorem nonempty_header_first_witness:
  "single_line (header_line decimal_runtime 50.4501 30.5234 None)
   \<and> current_weather short_forecast = None
   \<and> daily short_forecast = Some short_daily
   \<and> or_empty (daily_time short_daily) \<noteq> []
   \<and> formatForecastText decimal_runtime 50.4501 30.5234 short_forecast None \<noteq> []
   \<and> hd (split_nl (formatForecastText decimal_runtime 50.4501 30.5234 short_forecast None))
       = header_line decimal_runtime 50.4501 30.5234 None
   \<and> formatForecastText decimal_runtime 50.4501 30.5234 short_forecast None =
       header_line decimal_runtime 50.4501 30.5234 None @ NL # T_noData @ [NL, NL] @ daily_header @
       concat (map ((#) NL)
         (map (daily_line decimal_runtime (or_empty (daily_time short_daily))
                 (or_empty (temperature_2m_max short_daily))
                 (or_empty (temperature_2m_min short_daily))
                 (or_empty (precipitation_sum short_daily)))
            [0..<min (length (or_empty (daily_time short_daily))) 7]))"
proof -
  have s: "single_line (header_line decimal_runtime 50.4501 30.5234 None)"
    by (simp add: eval_defs)
  note n = nonempty_header_first [where rt = decimal_runtime and lat = "50.4501" and lon = "30.5234"
        and data = short_forecast and placeName = None and d = short_daily]
  note f = short_forecast_facts
  from n have a: "formatForecastText decimal_runtime 50.4501 30.5234 short_forecast None \<noteq> []"
    by (rule conjunct1)
  from n s have b: "hd (split_nl (formatForecastText decimal_runtime 50.4501 30.5234 short_forecast None))
       = header_line decimal_runtime 50.4501 30.5234 None"
    by blast
  from n f have c: "formatForecastText decimal_runtime 50.4501 30.5234 short_forecast None =
       header_line decimal_runtime 50.4501 30.5234 None @ NL # T_noData @ [NL, NL] @ daily_header @
       concat (map ((#) NL)
         (map (daily_line decimal_runtime (or_empty (daily_time short_daily))
                 (or_empty (temperature_2m_max short_daily))
                 (or_empty (temperature_2m_min short_daily))
                 (or_empty (precipitation_sum short_daily)))
            [0..<min (length (or_empty (daily_time short_daily))) 7]))"
    by blast
  from s f a b c show ?thesis by (intro conjI)
qed

text \<open>
  C10 as stated, for every display name, fails for a name that contains a newline,
  which the handler passes on from the geocoder as it is: the first line of the
  output is then the part of the header before that newline, not the header.
\<close>

theorem nonempty_header_first_counterexample:
  "hd (split_nl (formatForecastText decimal_runtime 50.4501 30.5234 sample_forecast
         (Some (ascii ''A'' @ [NL] @ ascii ''B''))))
     = T_forecastFor @ ascii '' A''
   \<and> hd (split_nl (formatForecastText decimal_runtime 50.4501 30.5234 sample_forecast
         (Some (ascii ''A'' @ [NL] @ ascii ''B''))))
     \<noteq> header_line decimal_runtime 50.4501 30.5234 (Some (ascii ''A'' @ [NL] @ ascii ''B''))"
proof -
  let ?name = "Some (ascii ''A'' @ [NL] @ ascii ''B'')"
  let ?out = "formatForecastText decimal_runtime 50.4501 30.5234 sample_forecast ?name"
  have h: "header_line decimal_runtime 50.4501 30.5234 ?name
      = (T_forecastFor @ ascii '' A'') @ NL # ascii ''B (50.4501, 30.5234)''"
    by (simp add: eval_defs)
  obtain rest where "?out = header_line decimal_runtime 50.4501 30.5234 ?name @ NL # rest"
    using format_starts_with_header by blast
  then have "?out = ((T_forecastFor @ ascii '' A'') @ NL # ascii ''B (50.4501, 30.5234)'') @ NL # rest"
    by (simp only: h)
  then have "?out = (T_forecastFor @ ascii '' A'') @ NL # (ascii ''B (50.4501, 30.5234)'' @ NL # rest)"
    by simp
  then have "split_nl ?out = split_nl (T_forecastFor @ ascii '' A'')
      @ split_nl (ascii ''B (50.4501, 30.5234)'' @ NL # rest)"
    by (simp only: split_nl_append_NL)
  moreover have "split_nl (T_forecastFor @ ascii '' A'') = [T_forecastFor @ ascii '' A'']"
    by (rule split_nl_single) (simp add: T_forecastFor_def ascii_def NL_def)
  ultimately have a: "hd (split_nl ?out) = T_forecastFor @ ascii '' A''" by simp
  have "T_forecastFor @ ascii '' A'' \<noteq> header_line decimal_runtime 50.4501 30.5234 ?name"
    unfolding h by simp
  with a show ?thesis by simp
qed

section \<open>Properties of the handler\<close>

text \<open>
  C1. When a coordinate is missing or zero, a non-empty city is given and the
  geocoder returns no result, the handler returns the message that the city was not
  found, with the city in quotes; its effects are those of the geocoder, a single
  request to the geocoding URL, and no forecast URL is fetched.
\<close>

theorem city_not_found:
  assumes "\<not> truthy_num (latitude a) \<or> \<not> truthy_num (longitude a)"
    and "city a = Some c" and "c \<noteq> []"
    and "fst (geocodeCity gnet c) = Inr None"
  shows "fst (get_forecast rt gnet fnet a) = Inr (text_result (not_found_text c))
       \<and> snd (get_forecast rt gnet fnet a) = snd (geocodeCity gnet c)
       \<and> (\<exists>enc. encodeURIComponent c = Inr enc
              \<and> fetched (snd (get_forecast rt gnet fnet a)) = [geocode_url enc])
       \<and> (\<forall>rt' lat lon. forecast_url rt' lat lon \<notin> set (fetched (snd (get_forecast rt gnet fnet a))))"
proof -
  obtain effs where g: "geocodeCity gnet c = (Inr None, effs)"
    using assms(4) by (cases "geocodeCity gnet c") simp
  have r: "get_forecast rt gnet fnet a = (Inr (text_result (not_found_text c)), effs)"
    using assms(1-3) g by (simp add: get_forecast_def truthy_str_def)
  obtain enc where e: "encodeURIComponent c = Inr enc"
    using geocodeCity_Inr [OF assms(4)] by blast
  have f: "fetched effs = [geocode_url enc]"
    using geocodeCity_fetched [of gnet c] g e by simp
  show ?thesis
    using r g e f geocode_url_not_forecast [of enc] by (auto simp add: eq_commute)
qed

theorem city_not_found_witness:
  "\<not> truthy_num (latitude \<lparr>city = Some (ascii ''Atlantis''), latitude = None, longitude = None\<rparr>)
   \<and> ascii ''Atlantis'' \<noteq> []
   \<and> fst (geocodeCity no_match_net (ascii ''Atlantis'')) = Inr None
   \<and> fst (get_forecast decimal_runtime no_match_net sample_net
             \<lparr>city = Some (ascii ''Atlantis''), latitude = None, longitude = None\<rparr>)
       = Inr (text_result (not_found_text (ascii ''Atlantis'')))
   \<and> fetched (snd (get_forecast decimal_runtime no_match_net sample_net
             \<lparr>city = Some (ascii ''Atlantis''), latitude = None, longitude = None\<rparr>))
       = [geocode_url (ascii ''Atlantis'')]"
proof -
  let ?a = "\<lparr>city = Some (ascii ''Atlantis''), latitude = None, longitude = None\<rparr>"
  have h1: "\<not> truthy_num (latitude ?a) \<or> \<not> truthy_num (longitude ?a)"
    and h1': "\<not> truthy_num (latitude ?a)"
    by (simp_all add: truthy_num_def)
  have h2: "city ?a = Some (ascii ''Atlantis'')" by simp
  have h3: "ascii ''Atlantis'' \<noteq> []" by (simp add: ascii_def)
  have h4: "fst (geocodeCity no_match_net (ascii ''Atlantis'')) = Inr None"
    by (simp add: geocode_Atlantis)
  note t = city_not_found [OF h1 h2 h3 h4, of decimal_runtime sample_net]
  from t have a: "fst (get_forecast decimal_runtime no_match_net sample_net ?a)
       = Inr (text_result (not_found_text (ascii ''Atlantis'')))"
    by (rule conjunct1)
  from t have b: "fetched (snd (get_forecast decimal_runtime no_match_net sample_net ?a))
       = [geocode_url (ascii ''Atlantis'')]"
    by (auto simp add: encode_Atlantis)
  from h1' h3 h4 a b show ?thesis by (intro conjI)
qed

text \<open>
  C2. The three branches, in order. A latitude and a longitude both given and both
  non-zero are used as they are, with no place name and no geocoding. Otherwise
  (a coordinate absent or exactly \<open>0\<close>) a non-empty city is geocoded: an exception
  of the geocoder leaves the handler, no result gives the not-found message, a
  result gives its coordinates and name. Otherwise (no city, or the empty string)
  the coordinates of Kyiv and the name \<open>Kyiv\<close> are used.
\<close>

theorem coordinate_resolution:
  "(latitude a = Some lat \<and> longitude a = Some lon \<and> lat \<noteq> 0 \<and> lon \<noteq> 0 \<longrightarrow>
      get_forecast rt gnet fnet a =
        (Inr (fst (fetch_and_format rt fnet lat lon None)),
         snd (fetch_and_format rt fnet lat lon None)))
   \<and> ((latitude a = None \<or> latitude a = Some 0 \<or> longitude a = None \<or> longitude a = Some 0)
        \<and> city a = Some c \<and> c \<noteq> [] \<longrightarrow>
      get_forecast rt gnet fnet a =
        (case geocodeCity gnet c of
           (Inl e, effs) \<Rightarrow> (Inl e, effs)
         | (Inr None, effs) \<Rightarrow> (Inr (text_result (not_found_text c)), effs)
         | (Inr (Some geo), effs) \<Rightarrow>
             (Inr (fst (fetch_and_format rt fnet (loc_latitude geo) (loc_longitude geo)
                          (loc_name geo))),
              effs @ snd (fetch_and_format rt fnet (loc_latitude geo) (loc_longitude geo)
                            (loc_name geo)))))
   \<and> ((latitude a = None \<or> latitude a = Some 0 \<or> longitude a = None \<or> longitude a = Some 0)
        \<and> (city a = None \<or> city a = Some []) \<longrightarrow>
      get_forecast rt gnet fnet a =
        (Inr (fst (fetch_and_format rt fnet DEFAULT_LATITUDE DEFAULT_LONGITUDE
                     (Some (ascii ''Kyiv'')))),
         snd (fetch_and_format rt fnet DEFAULT_LATITUDE DEFAULT_LONGITUDE
                (Some (ascii ''Kyiv'')))))"
proof (intro conjI impI)
  assume "latitude a = Some lat \<and> longitude a = Some lon \<and> lat \<noteq> 0 \<and> lon \<noteq> 0"
  then show "get_forecast rt gnet fnet a =
        (Inr (fst (fetch_and_format rt fnet lat lon None)),
         snd (fetch_and_format rt fnet lat lon None))"
    by (simp add: get_forecast_def truthy_num_def split: prod.splits)
next
  assume h: "(latitude a = None \<or> latitude a = Some 0 \<or> longitude a = None \<or> longitude a = Some 0)
        \<and> city a = Some c \<and> c \<noteq> []"
  then have f: "\<not> truthy_num (latitude a) \<or> \<not> truthy_num (longitude a)"
    by (auto simp add: truthy_num_def)
  from h have t: "truthy_str (city a)" "the (city a) = c" by (simp_all add: truthy_str_def)
  show "get_forecast rt gnet fnet a =
        (case geocodeCity gnet c of
           (Inl e, effs) \<Rightarrow> (Inl e, effs)
         | (Inr None, effs) \<Rightarrow> (Inr (text_result (not_found_text c)), effs)
         | (Inr (Some geo), effs) \<Rightarrow>
             (Inr (fst (fetch_and_format rt fnet (loc_latitude geo) (loc_longitude geo)
                          (loc_name geo))),
              effs @ snd (fetch_and_format rt fnet (loc_latitude geo) (loc_longitude geo)
                            (loc_name geo))))"
    using f t by (simp add: get_forecast_def split: prod.splits sum.splits option.splits)
next
  assume h: "(latitude a = None \<or> latitude a = Some 0 \<or> longitude a = None \<or> longitude a = Some 0)
        \<and> (city a = None \<or> city a = Some [])"
  then have f: "\<not> truthy_num (latitude a) \<or> \<not> truthy_num (longitude a)"
    by (auto simp add: truthy_num_def)
  from h have t: "\<not> truthy_str (city a)" by (auto simp add: truthy_str_def)
  show "get_forecast rt gnet fnet a =
        (Inr (fst (fetch_and_format rt fnet DEFAULT_LATITUDE DEFAULT_LONGITUDE
                     (Some (ascii ''Kyiv'')))),
         snd (fetch_and_format rt fnet DEFAULT_LATITUDE DEFAULT_LONGITUDE
                (Some (ascii ''Kyiv''))))"
    using f t by (simp add: get_forecast_def split: prod.splits)
qed

theorem coordinate_resolution_witness:
  "get_forecast decimal_runtime lviv_net sample_net
      \<lparr>city = Some (ascii ''Lviv''), latitude = Some 49.8383, longitude = Some 24.0232\<rparr>
     = (Inr (text_result (formatForecastText decimal_runtime 49.8383 24.0232 sample_forecast None)),
        [Fetch (forecast_url decimal_runtime 49.8383 24.0232)])
   \<and> get_forecast decimal_runtime lviv_net sample_net
      \<lparr>city = Some (ascii ''Lviv''), latitude = Some 0, longitude = Some 24.0232\<rparr>
     = (Inr (text_result (formatForecastText decimal_runtime 49.8383 24.0232 sample_forecast
               (Some (ascii ''Lviv'')))),
        [Fetch (geocode_url (ascii ''Lviv'')), Fetch (forecast_url decimal_runtime 49.8383 24.0232)])
   \<and> get_forecast decimal_runtime lviv_net sample_net
      \<lparr>city = None, latitude = Some 0, longitude = Some 24.0232\<rparr>
     = (Inr (text_result (formatForecastText decimal_runtime 50.4501 30.5234 sample_forecast
               (Some (ascii ''Kyiv'')))),
        [Fetch (forecast_url decimal_runtime 50.4501 30.5234)])"
proof -
  have n: "ascii ''Lviv'' \<noteq> []" by (simp add: ascii_def)
  have a: "get_forecast decimal_runtime lviv_net sample_net
      \<lparr>city = Some (ascii ''Lviv''), latitude = Some 49.8383, longitude = Some 24.0232\<rparr>
     = (Inr (text_result (formatForecastText decimal_runtime 49.8383 24.0232 sample_forecast None)),
        [Fetch (forecast_url decimal_runtime 49.8383 24.0232)])"
    using coordinate_resolution [where rt = decimal_runtime and gnet = lviv_net and fnet = sample_net
        and a = "\<lparr>city = Some (ascii ''Lviv''), latitude = Some 49.8383, longitude = Some 24.0232\<rparr>"
        and lat = "49.8383" and lon = "24.0232"]
    by (simp add: fetch_sample)
  have b: "get_forecast decimal_runtime lviv_net sample_net
      \<lparr>city = Some (ascii ''Lviv''), latitude = Some 0, longitude = Some 24.0232\<rparr>
     = (Inr (text_result (formatForecastText decimal_runtime 49.8383 24.0232 sample_forecast
               (Some (ascii ''Lviv'')))),
        [Fetch (geocode_url (ascii ''Lviv'')), Fetch (forecast_url decimal_runtime 49.8383 24.0232)])"
    using coordinate_resolution [where rt = decimal_runtime and gnet = lviv_net and fnet = sample_net
        and a = "\<lparr>city = Some (ascii ''Lviv''), latitude = Some 0, longitude = Some 24.0232\<rparr>"
        and c = "ascii ''Lviv''"] n
    by (simp add: fetch_sample geocode_Lviv)
  have c: "get_forecast decimal_runtime lviv_net sample_net
      \<lparr>city = None, latitude = Some 0, longitude = Some 24.0232\<rparr>
     = (Inr (text_result (formatForecastText decimal_runtime 50.4501 30.5234 sample_forecast
               (Some (ascii ''Kyiv'')))),
        [Fetch (forecast_url decimal_runtime 50.4501 30.5234)])"
    using coordinate_resolution [where rt = decimal_runtime and gnet = lviv_net and fnet = sample_net
        and a = "\<lparr>city = None, latitude = Some 0, longitude = Some 24.0232\<rparr>"]
    by (simp add: fetch_sample DEFAULT_LATITUDE_def DEFAULT_LONGITUDE_def)
  from a b c show ?thesis by (intro conjI)
qed

text \<open>
  C3. With city, latitude and longitude all omitted the handler fetches the
  forecast URL built from latitude \<open>50.4501\<close> and longitude \<open>30.5234\<close>, and
  nothing else, and formats the payload with these coordinates and the name
  \<open>Kyiv\<close>.
\<close>

theorem default_location:
  "get_forecast rt gnet fnet \<lparr>city = None, latitude = None, longitude = None\<rparr> =
     (case makeRequest fnet (forecast_url rt 50.4501 30.5234) of
        (None, effs) \<Rightarrow> (Inr (text_result fetch_error_text), effs)
      | (Some d, effs) \<Rightarrow>
          (Inr (text_result (formatForecastText rt 50.4501 30.5234 d (Some (ascii ''Kyiv'')))), effs))
   \<and> fetched (snd (get_forecast rt gnet fnet \<lparr>city = None, latitude = None, longitude = None\<rparr>))
       = [forecast_url rt 50.4501 30.5234]
   \<and> forecast_url rt 50.4501 30.5234 =
       FORECAST_BASE @ ascii ''?latitude='' @ form_encode (num_toString rt 50.4501)
       @ ascii ''&longitude='' @ form_encode (num_toString rt 30.5234)
       @ ascii ''&current_weather=true&daily=temperature_2m_max%2Ctemperature_2m_min%2Cprecipitation_sum&timezone=Europe%2FKyiv&temperature_unit=celsius&windspeed_unit=kmh''"
proof -
  let ?a = "\<lparr>city = None, latitude = None, longitude = None\<rparr>"
  have g: "get_forecast rt gnet fnet ?a =
     (case makeRequest fnet (forecast_url rt 50.4501 30.5234) of
        (None, effs) \<Rightarrow> (Inr (text_result fetch_error_text), effs)
      | (Some d, effs) \<Rightarrow>
          (Inr (text_result (formatForecastText rt 50.4501 30.5234 d (Some (ascii ''Kyiv'')))), effs))"
  proof -
    have "\<not> truthy_num (latitude ?a) \<or> \<not> truthy_num (longitude ?a)" and "\<not> truthy_str (city ?a)"
      by (simp_all add: truthy_num_def truthy_str_def)
    then show ?thesis
      by (rule get_forecast_default [unfolded DEFAULT_LATITUDE_def DEFAULT_LONGITUDE_def])
  qed
  have f: "fetched (snd (get_forecast rt gnet fnet ?a)) = [forecast_url rt 50.4501 30.5234]"
    unfolding g using makeRequest_fetched [of fnet "forecast_url rt 50.4501 30.5234"]
    by (auto split: prod.splits option.splits)
  show ?thesis using g f forecast_url_text [of rt "50.4501" "30.5234"] by (intro conjI)
qed

theorem default_location_witness:
  "get_forecast decimal_runtime no_match_net sample_net
      \<lparr>city = None, latitude = None, longitude = None\<rparr> =
     (Inr (text_result (formatForecastText decimal_runtime 50.4501 30.5234 sample_forecast
             (Some (ascii ''Kyiv'')))),
      [Fetch (forecast_url decimal_runtime 50.4501 30.5234)])
   \<and> forecast_url decimal_runtime 50.4501 30.5234 =
       ascii ''https://api.open-meteo.com/v1/forecast?latitude=50.4501&longitude=30.5234&current_weather=true&daily=temperature_2m_max%2Ctemperature_2m_min%2Cprecipitation_sum&timezone=Europe%2FKyiv&temperature_unit=celsius&windspeed_unit=kmh''"
proof -
  note t = default_location [of decimal_runtime no_match_net sample_net]
  have m: "makeRequest sample_net (forecast_url decimal_runtime 50.4501 30.5234) =
      (Some sample_forecast, [Fetch (forecast_url decimal_runtime 50.4501 30.5234)])"
    by (simp add: makeRequest_def sample_net_def)
  from t have a: "get_forecast decimal_runtime no_match_net sample_net
      \<lparr>city = None, latitude = None, longitude = None\<rparr> =
     (Inr (text_result (formatForecastText decimal_runtime 50.4501 30.5234 sample_forecast
             (Some (ascii ''Kyiv'')))),
      [Fetch (forecast_url decimal_runtime 50.4501 30.5234)])"
    by (simp only: m prod.case option.case)
  from t have u: "forecast_url decimal_runtime 50.4501 30.5234 =
       FORECAST_BASE @ ascii ''?latitude='' @ form_encode (num_toString decimal_runtime 50.4501)
       @ ascii ''&longitude='' @ form_encode (num_toString decimal_runtime 30.5234)
       @ ascii ''&current_weather=true&daily=temperature_2m_max%2Ctemperature_2m_min%2Cprecipitation_sum&timezone=Europe%2FKyiv&temperature_unit=celsius&windspeed_unit=kmh''"
    by blast
  have v: "FORECAST_BASE @ ascii ''?latitude='' @ form_encode (num_toString decimal_runtime 50.4501)
       @ ascii ''&longitude='' @ form_encode (num_toString decimal_runtime 30.5234)
       @ ascii ''&current_weather=true&daily=temperature_2m_max%2Ctemperature_2m_min%2Cprecipitation_sum&timezone=Europe%2FKyiv&temperature_unit=celsius&windspeed_unit=kmh''
     = ascii ''https://api.open-meteo.com/v1/forecast?latitude=50.4501&longitude=30.5234&current_weather=true&daily=temperature_2m_max%2Ctemperature_2m_min%2Cprecipitation_sum&timezone=Europe%2FKyiv&temperature_unit=celsius&windspeed_unit=kmh''"
    unfolding decimal_defaults encode_decimals FORECAST_BASE_def by (simp add: ascii_def)
  from u v have b: "forecast_url decimal_runtime 50.4501 30.5234 =
       ascii ''https://api.open-meteo.com/v1/forecast?latitude=50.4501&longitude=30.5234&current_weather=true&daily=temperature_2m_max%2Ctemperature_2m_min%2Cprecipitation_sum&timezone=Europe%2FKyiv&temperature_unit=celsius&windspeed_unit=kmh''"
    by (rule trans)
  from a b show ?thesis by (intro conjI)
qed

text \<open>
  C8. A null from the forecast request gives a normal result with the generic
  failure message (\<open>forecast_null_message\<close>), and for response bodies of the
  declared types the handler returns normally whenever \<open>encodeURIComponent\<close>
  does (\<open>get_forecast_returns\<close>). It does not on
  every path: the geocoding URL is built outside the \<open>try\<close> block of the
  fetcher, and for a city that is an unpaired surrogate, which the schema accepts,
  \<open>encodeURIComponent\<close> raises \<open>URIError\<close>, which leaves the handler before
  any request is made.
\<close>

theorem uri_error_escapes:
  "schema_accepts \<lparr>city = Some [0xD800], latitude = None, longitude = None\<rparr>
   \<and> get_forecast rt gnet fnet \<lparr>city = Some [0xD800], latitude = None, longitude = None\<rparr>
       = (Inl URIError, [])"
proof -
  have "geocodeCity gnet [0xD800] = (Inl URIError, [])"
    by (simp only: geocodeCity_def encode_lone_surrogate sum.case)
  then show ?thesis
    by (simp add: get_forecast_def truthy_num_def truthy_str_def schema_accepts_def)
qed

theorem uri_error_escapes_witness:
  "schema_accepts \<lparr>city = Some [0xD800], latitude = None, longitude = None\<rparr>
   \<and> get_forecast decimal_runtime no_match_net sample_net
         \<lparr>city = Some [0xD800], latitude = None, longitude = None\<rparr> = (Inl URIError, [])"
  by (rule uri_error_escapes)

text \<open>
  C9. When exactly one of latitude and longitude is given, non-zero, and no city is
  given (or the empty string), the handler behaves as with no argument at all: the
  given coordinate is discarded and both coordinates are those of Kyiv.
\<close>

theorem lone_coordinate_discarded:
  assumes "x \<noteq> 0" and "city a = None \<or> city a = Some []"
    and "(latitude a = Some x \<and> longitude a = None) \<or> (latitude a = None \<and> longitude a = Some x)"
  shows "get_forecast rt gnet fnet a =
           get_forecast rt gnet fnet \<lparr>city = None, latitude = None, longitude = None\<rparr>
       \<and> get_forecast rt gnet fnet a =
           (case makeRequest fnet (forecast_url rt 50.4501 30.5234) of
              (None, effs) \<Rightarrow> (Inr (text_result fetch_error_text), effs)
            | (Some d, effs) \<Rightarrow>
                (Inr (text_result (formatForecastText rt 50.4501 30.5234 d (Some (ascii ''Kyiv'')))),
                 effs))
       \<and> fetched (snd (get_forecast rt gnet fnet a)) = [forecast_url rt 50.4501 30.5234]"
proof -
  let ?n = "\<lparr>city = None, latitude = None, longitude = None\<rparr>"
  have f: "\<not> truthy_num (latitude a) \<or> \<not> truthy_num (longitude a)"
    using assms(3) by (auto simp add: truthy_num_def)
  have t: "\<not> truthy_str (city a)" using assms(2) by (auto simp add: truthy_str_def)
  have g: "get_forecast rt gnet fnet a =
           (case makeRequest fnet (forecast_url rt 50.4501 30.5234) of
              (None, effs) \<Rightarrow> (Inr (text_result fetch_error_text), effs)
            | (Some d, effs) \<Rightarrow>
                (Inr (text_result (formatForecastText rt 50.4501 30.5234 d (Some (ascii ''Kyiv'')))),
                 effs))"
    using f t by (rule get_forecast_default [unfolded DEFAULT_LATITUDE_def DEFAULT_LONGITUDE_def])
  have n: "get_forecast rt gnet fnet ?n =
           (case makeRequest fnet (forecast_url rt 50.4501 30.5234) of
              (None, effs) \<Rightarrow> (Inr (text_result fetch_error_text), effs)
            | (Some d, effs) \<Rightarrow>
                (Inr (text_result (formatForecastText rt 50.4501 30.5234 d (Some (ascii ''Kyiv'')))),
                 effs))"
  proof -
    have "\<not> truthy_num (latitude ?n) \<or> \<not> truthy_num (longitude ?n)" and "\<not> truthy_str (city ?n)"
      by (simp_all add: truthy_num_def truthy_str_def)
    then show ?thesis
      by (rule get_forecast_default [unfolded DEFAULT_LATITUDE_def DEFAULT_LONGITUDE_def])
  qed
  have e: "fetched (snd (get_forecast rt gnet fnet a)) = [forecast_url rt 50.4501 30.5234]"
    unfolding g using makeRequest_fetched [of fnet "forecast_url rt 50.4501 30.5234"]
    by (auto split: prod.splits option.splits)
  from g n have "get_forecast rt gnet fnet a = get_forecast rt gnet fnet ?n" by (rule trans [OF _ sym])
  with g e show ?thesis by (intro conjI)
qed

theorem lone_coordinate_discarded_witness:
  "(48.45::real) \<noteq> 0
   \<and> city \<lparr>city = None, latitude = Some 48.45, longitude = None\<rparr> = None
   \<and> latitude \<lparr>city = None, latitude = Some 48.45, longitude = None\<rparr> = Some 48.45
   \<and> longitude \<lparr>city = None, latitude = Some 48.45, longitude = None\<rparr> = None
   \<and> get_forecast decimal_runtime no_match_net sample_net
        \<lparr>city = None, latitude = Some 48.45, longitude = None\<rparr> =
       (Inr (text_result (formatForecastText decimal_runtime 50.4501 30.5234 sample_forecast
               (Some (ascii ''Kyiv'')))),
        [Fetch (forecast_url decimal_runtime 50.4501 30.5234)])"
proof -
  let ?a = "\<lparr>city = None, latitude = Some (48.45::real), longitude = None\<rparr>"
  have h1: "(48.45::real) \<noteq> 0" by simp
  have h2: "city ?a = None \<or> city ?a = Some []" by simp
  have h3: "(latitude ?a = Some 48.45 \<and> longitude ?a = None)
      \<or> (latitude ?a = None \<and> longitude ?a = Some 48.45)" by simp
  have m: "makeRequest sample_net (forecast_url decimal_runtime 50.4501 30.5234) =
      (Some sample_forecast, [Fetch (forecast_url decimal_runtime 50.4501 30.5234)])"
    by (simp add: makeRequest_def sample_net_def)
  from lone_coordinate_discarded [OF h1 h2 h3, of decimal_runtime no_match_net sample_net,
      THEN conjunct2, THEN conjunct1]
  have "get_forecast decimal_runtime no_match_net sample_net ?a =
       (Inr (text_result (formatForecastText decimal_runtime 50.4501 30.5234 sample_forecast
               (Some (ascii ''Kyiv'')))),
        [Fetch (forecast_url decimal_runtime 50.4501 30.5234)])"
    by (simp only: m prod.case option.case)
  with h1 show ?thesis by simp
qed

end
